theory Spec2Isabelle
  imports Main "HOL-Library.Char_ord" "HOL-Library.List_Lexorder"
begin

section \<open>JavaScript values and string primitives\<close>

text \<open>
  Request fields reach the handlers untyped (\<open>req.body\<close> is \<open>any\<close>), so a field is a
  JavaScript value. Numbers are integers, and \<open>JObj\<close> stands for every other value (an
  array, an object): all of them are truthy and none of them is a string. A string is a
  list of code units; the model covers the code units below 256.
\<close>

datatype jsval = JUndefined | JNull | JBool bool | JNum int | JStr string | JObj

datatype js_error = TypeError

fun truthy :: "jsval \<Rightarrow> bool" where
  "truthy JUndefined = False"
| "truthy JNull = False"
| "truthy (JBool b) = b"
| "truthy (JNum n) = (n \<noteq> 0)"
| "truthy (JStr s) = (s \<noteq> [])"
| "truthy JObj = True"

text \<open>The operator \<open>a || b\<close>.\<close>

definition js_or :: "jsval \<Rightarrow> jsval \<Rightarrow> jsval" where
  "js_or a b = (if truthy a then a else b)"

definition of_opt :: "string option \<Rightarrow> jsval" where
  "of_opt x = (case x of None \<Rightarrow> JUndefined | Some s \<Rightarrow> JStr s)"

text \<open>\<open>s.startsWith(p)\<close> on a string.\<close>

definition startsWith :: "string \<Rightarrow> string \<Rightarrow> bool" where
  "startsWith s p = (take (length p) s = p)"

text \<open>
  \<open>s.replace(pat, rep)\<close> with a string pattern: the first occurrence of \<open>pat\<close> is
  replaced, the rest of \<open>s\<close> is kept. (\<open>rep\<close> is taken literally; the source only passes
  the empty string.)
\<close>

fun replace :: "string \<Rightarrow> string \<Rightarrow> string \<Rightarrow> string" where
  "replace [] pat rep = (if pat = [] then rep else [])"
| "replace (c # cs) pat rep =
     (if startsWith (c # cs) pat then rep @ drop (length pat) (c # cs)
      else c # replace cs pat rep)"

section \<open>Regular expressions\<close>

text \<open>
  The fragment of regular expressions that the source's pattern uses, with a matcher by
  derivatives. \<open>RegExp.prototype.test\<close> with the anchors \<open>^\<close> and \<open>$\<close> (no flag) asks
  whether the whole string belongs to the language of the expression between the anchors.
\<close>

datatype rexp =
    Fail
  | Eps
  | Lit char
  | Range char char
  | Alt rexp rexp
  | Seq rexp rexp
  | Opt rexp
  | Rep rexp nat nat

definition in_range :: "char \<Rightarrow> char \<Rightarrow> char \<Rightarrow> bool" where
  "in_range lo hi c = (lo \<le> c \<and> c \<le> hi)"

fun nullable :: "rexp \<Rightarrow> bool" where
  "nullable Fail = False"
| "nullable Eps = True"
| "nullable (Lit c) = False"
| "nullable (Range lo hi) = False"
| "nullable (Alt r s) = (nullable r \<or> nullable s)"
| "nullable (Seq r s) = (nullable r \<and> nullable s)"
| "nullable (Opt r) = True"
| "nullable (Rep r m n) = (m = 0 \<or> (nullable r \<and> m \<le> n))"

fun deriv :: "char \<Rightarrow> rexp \<Rightarrow> rexp" where
  "deriv c Fail = Fail"
| "deriv c Eps = Fail"
| "deriv c (Lit d) = (if c = d then Eps else Fail)"
| "deriv c (Range lo hi) = (if in_range lo hi c then Eps else Fail)"
| "deriv c (Alt r s) = Alt (deriv c r) (deriv c s)"
| "deriv c (Seq r s) =
     (if nullable r then Alt (Seq (deriv c r) s) (deriv c s) else Seq (deriv c r) s)"
| "deriv c (Opt r) = deriv c r"
| "deriv c (Rep r m n) = (if n = 0 then Fail else Seq (deriv c r) (Rep r (m - 1) (n - 1)))"

fun matches :: "rexp \<Rightarrow> string \<Rightarrow> bool" where
  "matches r [] = nullable r"
| "matches r (c # cs) = matches (deriv c r) cs"

text \<open>The pattern \<open>/^\+?[1-9]\d{1,14}$/\<close>; \<open>\d\<close> is \<open>[0-9]\<close>.\<close>

definition phone_regex :: rexp where
  "phone_regex =
     Seq (Opt (Lit CHR ''+''))
       (Seq (Range CHR ''1'' CHR ''9'') (Rep (Range CHR ''0'' CHR ''9'') 1 14))"

definition isPhoneNumber :: "string \<Rightarrow> bool" where
  "isPhoneNumber to = matches phone_regex to"

section \<open>Call-control documents, configuration and logging\<close>

record say_attrs =
  voice :: string
  language :: string

record dial_attrs =
  callerId :: jsval
  answerOnBridge :: bool
  timeout :: "nat option"

record number_attrs =
  statusCallbackEvent :: "string list"
  statusCallback :: string
  statusCallbackMethod :: string

datatype noun = Client string | Sip string | Number number_attrs string

text \<open>
  A \<open>VoiceResponse\<close> is the list of its verbs in the order they were added; a \<open>Dial\<close>
  holds the nouns added to it (none, when nothing was added).
\<close>

datatype verb = Say say_attrs string | Dial dial_attrs "noun list"

datatype level = LDebug | LInfo | LWarn | LError

text \<open>
  A log line is its level, its text with \<open>%\<close> in place of each interpolated value, and
  the interpolated values.
\<close>

datatype log = Log level string "jsval list"

text \<open>
  The configuration module is not part of the sources: the two settings the handlers read
  are parameters. \<open>twilio_callerId\<close> is \<open>None\<close> when the setting is \<open>undefined\<close>.
\<close>

record config =
  twilio_callerId :: "string option"
  serverUrl :: string

record request =
  body_To :: jsval
  query_To :: jsval
  body_From :: jsval
  query_From :: jsval
  body_CallSid :: jsval

record reply =
  logs :: "log list"
  twiml :: "verb list"

definition alice :: say_attrs where
  "alice = \<lparr>voice = ''alice'', language = ''en-US''\<rparr>"

definition apology :: verb where
  "apology = Say alice ''We encountered an error processing your call. Please try again later.''"

definition no_destination :: verb where
  "no_destination = Say alice ''No destination specified. Please provide a valid destination.''"

section \<open>voiceResponse\<close>

text \<open>Lines 43 and 44: the caller id resolved from \<open>from\<close> alone.\<close>

definition resolveCallerId :: "config \<Rightarrow> string \<Rightarrow> jsval" where
  "resolveCallerId cfg from =
     (if startsWith from ''client:'' then js_or (of_opt (twilio_callerId cfg)) (JStr from)
      else JStr from)"

text \<open>
  The \<open>try\<close> block, up to the first statement that throws: the result is the exception
  (if any) and the log lines and verbs produced until then.
\<close>

definition voice_try :: "config \<Rightarrow> jsval \<Rightarrow> jsval \<Rightarrow> js_error option \<times> reply" where
  "voice_try cfg to cid =
     (if \<not> truthy to then
        (None,
         \<lparr>logs = [Log LWarn ''No 'To' parameter provided in voice request'' []],
          twiml = [no_destination]\<rparr>)
      else case to of
        JStr t \<Rightarrow>
          (if startsWith t ''client:'' then
             (let clientId = replace t ''client:'' '''' in
              (None,
               \<lparr>logs = [Log LInfo ''Dialing to client: %'' [JStr clientId],
                        Log LDebug ''Generated TwiML response for voice call'' []],
                twiml = [Dial \<lparr>callerId = cid, answerOnBridge = True, timeout = Some 20\<rparr>
                           [Client clientId]]\<rparr>))
           else if startsWith t ''sip:'' then
             (None,
              \<lparr>logs = [Log LInfo ''Dialing to SIP: %'' [to],
                       Log LDebug ''Generated TwiML response for voice call'' []],
               twiml = [Dial \<lparr>callerId = cid, answerOnBridge = True, timeout = None\<rparr>
                          [Sip t]]\<rparr>)
           else
             (let isPhone = isPhoneNumber t;
                  verified = of_opt (twilio_callerId cfg);
                  presented = js_or verified cid
              in (None,
                  \<lparr>logs =
                     [Log LInfo ''Dialing to %: %''
                        [JStr (if isPhone then ''phone number'' else ''client identity''), to]]
                     @ (if isPhone \<and> (\<not> truthy verified \<or> verified = JStr '''') then
                          [Log LWarn
                             ''Attempting to call a phone number without a valid callerId configured''
                             []]
                        else [])
                     @ (if isPhone then
                          [Log LInfo ''Making outbound call to phone number: % with caller ID: %''
                             [to, presented]]
                        else [Log LInfo ''Making call to client: %'' [to]])
                     @ [Log LDebug ''Generated TwiML response for voice call'' []],
                   twiml =
                     [Dial \<lparr>callerId = (if isPhone then presented else cid),
                            answerOnBridge = True, timeout = Some 20\<rparr>
                        [if isPhone then
                           Number
                             \<lparr>statusCallbackEvent =
                                [''initiated'', ''ringing'', ''answered'', ''completed''],
                              statusCallback = serverUrl cfg @ ''/status'',
                              statusCallbackMethod = ''POST''\<rparr> t
                         else Client t]]\<rparr>)))
      | _ \<Rightarrow> (Some TypeError, \<lparr>logs = [], twiml = []\<rparr>))"

text \<open>
  The handler. \<open>from.startsWith\<close> is evaluated before the \<open>try\<close>: an exception there
  leaves the handler (\<open>Inl\<close>). An exception inside the \<open>try\<close> is caught and the apology
  is added to whatever the response holds.
\<close>

definition voiceResponse :: "config \<Rightarrow> request \<Rightarrow> js_error + reply" where
  "voiceResponse cfg req =
     (let to = js_or (body_To req) (query_To req);
          from = js_or (js_or (body_From req) (query_From req)) (JStr ''client:anonymous'')
      in case from of
           JStr f \<Rightarrow>
             (let cid = resolveCallerId cfg f;
                  first = Log LInfo ''Voice request: To=%, From=%, CallerId=%'' [to, from, cid]
              in case voice_try cfg to cid of
                   (None, r) \<Rightarrow> Inr (r\<lparr>logs := first # logs r\<rparr>)
                 | (Some e, r) \<Rightarrow>
                     Inr \<lparr>logs = first # logs r @ [Log LError ''Error generating voice response'' []],
                          twiml = twiml r @ [apology]\<rparr>)
         | _ \<Rightarrow> Inl TypeError)"

section \<open>incomingCall\<close>

definition no_one_available :: verb where
  "no_one_available =
     Say alice ''Thank you for calling. No one is available right now. Please try again later.''"

text \<open>
  The \<open>try\<close> block. The \<open>Dial\<close> verb is added to the response before \<open>to\<close> is
  looked at, so it is part of the response on every path. \<open>to && to.startsWith(...)\<close>
  calls \<open>startsWith\<close> only on a truthy \<open>to\<close>, and the call throws when that value is
  not a string.
\<close>

definition incoming_try :: "request \<Rightarrow> js_error option \<times> reply" where
  "incoming_try req =
     (let to = js_or (body_To req) (query_To req);
          from = js_or (js_or (body_From req) (query_From req)) (JStr ''unknown'');
          callSid = js_or (body_CallSid req) (JStr ''unknown'');
          first = Log LInfo ''Incoming call from % to %, CallSid: %'' [from, to, callSid];
          attrs = \<lparr>callerId = from, answerOnBridge = True, timeout = None\<rparr>;
          fallback =
            (None,
             \<lparr>logs = [first, Log LInfo ''No specific client to route to, playing message'' [],
                      Log LDebug ''Generated TwiML response for incoming call'' []],
              twiml = [Dial attrs [], no_one_available]\<rparr>)
      in if \<not> truthy to then fallback
         else case to of
           JStr t \<Rightarrow>
             (if startsWith t ''client:'' then
                (let clientId = replace t ''client:'' '''' in
                 (None,
                  \<lparr>logs = [first, Log LInfo ''Routing incoming call to client: %'' [JStr clientId],
                           Log LDebug ''Generated TwiML response for incoming call'' []],
                   twiml = [Dial attrs [Client clientId]]\<rparr>))
              else fallback)
         | _ \<Rightarrow> (Some TypeError, \<lparr>logs = [first], twiml = [Dial attrs []]\<rparr>))"

definition incomingCall :: "request \<Rightarrow> reply" where
  "incomingCall req =
     (let entry = Log LInfo ''Incoming call request received'' [] in
      case incoming_try req of
        (None, r) \<Rightarrow> r\<lparr>logs := entry # logs r\<rparr>
      | (Some e, r) \<Rightarrow>
          \<lparr>logs = entry # logs r @ [Log LError ''Error handling incoming call'' []],
           twiml = twiml r @ [apology]\<rparr>)"

section \<open>parseInt\<close>

text \<open>
  A Number, as far as the handlers can tell Numbers apart: \<open>NaN\<close>, an integer of
  magnitude below 2^53 (every such integer is a Number, exactly), or a Number whose
  magnitude is at least 2^53, finite or infinite. Of that last kind the model keeps the
  sign only: which double it is depends on the rounding, and no handler looks at it.
\<close>

datatype number = NaN | Num int | Beyond bool

text \<open>
  The Number for the integer \<open>sign * m\<close>. Rounding to the nearest double is the identity
  below 2^53 and never goes below 2^53 from there on.
\<close>

definition to_number :: "int \<Rightarrow> nat \<Rightarrow> number" where
  "to_number sign m = (if m < 2 ^ 53 then Num (sign * int m) else Beyond (sign < 0))"

text \<open>
  \<open>parseInt(string, radix)\<close> as ECMAScript defines it: leading white space is dropped,
  then an optional sign, then (for radix 16 or no radix) a prefix \<open>0x\<close>; the longest run of
  digits of the radix is the number, and \<open>NaN\<close> is the answer when that run is empty.
\<close>

definition is_ws :: "char \<Rightarrow> bool" where
  "is_ws c = (c \<in> set [CHR 0x09, CHR 0x0A, CHR 0x0B, CHR 0x0C, CHR 0x0D, CHR 0x20, CHR 0xA0])"

definition is_digit :: "char \<Rightarrow> bool" where
  "is_digit c = in_range CHR ''0'' CHR ''9'' c"

definition digit_val :: "char \<Rightarrow> nat option" where
  "digit_val c =
     (if in_range CHR ''0'' CHR ''9'' c then Some (of_char c - 48)
      else if in_range CHR ''a'' CHR ''z'' c then Some (of_char c - 87)
      else if in_range CHR ''A'' CHR ''Z'' c then Some (of_char c - 55)
      else None)"

definition radix_digit :: "nat \<Rightarrow> char \<Rightarrow> nat option" where
  "radix_digit R c = (case digit_val c of None \<Rightarrow> None | Some d \<Rightarrow> if d < R then Some d else None)"

fun scan_digits :: "nat \<Rightarrow> string \<Rightarrow> nat list" where
  "scan_digits R [] = []"
| "scan_digits R (c # cs) =
     (case radix_digit R c of None \<Rightarrow> [] | Some d \<Rightarrow> d # scan_digits R cs)"

definition number_of :: "nat \<Rightarrow> nat list \<Rightarrow> nat" where
  "number_of R ds = foldl (\<lambda>a d. a * R + d) 0 ds"

definition parseInt :: "string \<Rightarrow> nat option \<Rightarrow> number" where
  "parseInt string radix =
     (let S = dropWhile is_ws string;
          sign = (case S of c # cs \<Rightarrow> if c = CHR ''-'' then - 1 else 1 | [] \<Rightarrow> (1::int));
          S1 = (case S of c # cs \<Rightarrow> if c = CHR ''+'' \<or> c = CHR ''-'' then cs else S | [] \<Rightarrow> S);
          R0 = (case radix of None \<Rightarrow> 0 | Some r \<Rightarrow> r)
      in if R0 \<noteq> 0 \<and> (R0 < 2 \<or> 36 < R0) then NaN
         else
           (let stripPrefix = (R0 = 0 \<or> R0 = 16);
                hex = (stripPrefix \<and> (startsWith S1 ''0x'' \<or> startsWith S1 ''0X''));
                S2 = (if hex then drop 2 S1 else S1);
                R = (if hex then 16 else if R0 = 0 then 10 else R0);
                Z = scan_digits R S2
            in if Z = [] then NaN else to_number sign (number_of R Z)))"

section \<open>The reservation store\<close>

text \<open>
  A row of the table \<open>CallReservation\<close> (prisma/schema.prisma). \<open>id_field\<close> is the column
  \<open>id\<close>; the time stamps are instants on some clock. The list \<open>rows\<close> below is the
  table in the order in which a query returns its rows.
\<close>

record reservation =
  id_field :: int
  username :: string
  reservationDate :: string
  startTime :: string
  endTime :: string
  status :: string
  phoneNumber :: "string option"
  callDuration :: "int option"
  createdAt :: nat
  updatedAt :: nat

text \<open>The table, in storage order, and the next value of the \<open>autoincrement\<close> sequence.\<close>

record db =
  rows :: "reservation list"
  next_id :: int

text \<open>
  The storage client is not part of the sources. It is modelled from its use and from the
  schema: it refuses data of the wrong type for a column (\<open>ValidationError\<close>), a Number
  that is not a value of the 32-bit column \<open>id\<close> (\<open>ValueOutOfRange\<close>), an \<open>update\<close> of
  a row that does not exist (\<open>RecordNotFound\<close>) and one that would give two rows the same
  id (\<open>UniqueConstraintFailed\<close>); a failing connection is outside the model.
\<close>

datatype prisma_error =
  ValidationError | ValueOutOfRange | RecordNotFound | UniqueConstraintFailed

type_synonym body = "(string \<times> jsval) list"

text \<open>\<open>body.k\<close>: the value of a property, \<open>undefined\<close> when the object has none.\<close>

definition field :: "body \<Rightarrow> string \<Rightarrow> jsval" where
  "field b k = (case map_of b k of None \<Rightarrow> JUndefined | Some v \<Rightarrow> v)"

datatype payload = NoData | One reservation | Many "reservation list"

text \<open>The status code and the JSON envelope of a response.\<close>

record response =
  code :: nat
  success :: bool
  message :: "string option"
  data :: payload
  error :: "prisma_error option"

definition handleError :: "prisma_error \<Rightarrow> string \<Rightarrow> response" where
  "handleError err msg =
     \<lparr>code = 500, success = False, message = Some msg, data = NoData, error = Some err\<rparr>"

text \<open>The values of the column \<open>id\<close>: the 32-bit integers.\<close>

definition int_column :: "int \<Rightarrow> bool" where
  "int_column n = (- (2 ^ 31) \<le> n \<and> n < 2 ^ 31)"

text \<open>
  The key that the client makes of the Number given as \<open>where: {id: ...}\<close>; it throws
  when the Number is not a value of the column.
\<close>

fun column_key :: "number \<Rightarrow> prisma_error + int" where
  "column_key NaN = Inl ValidationError"
| "column_key (Num n) = (if int_column n then Inr n else Inl ValueOutOfRange)"
| "column_key (Beyond s) = Inl ValueOutOfRange"

text \<open>The row of the table with a given id.\<close>

definition findUnique :: "int \<Rightarrow> db \<Rightarrow> reservation option" where
  "findUnique i d = find (\<lambda>r. id_field r = i) (rows d)"

text \<open>\<open>prisma.callReservation.findUnique({where: {id}})\<close>.\<close>

definition prisma_findUnique :: "number \<Rightarrow> db \<Rightarrow> prisma_error + reservation option" where
  "prisma_findUnique i d =
     (case column_key i of Inl e \<Rightarrow> Inl e | Inr n \<Rightarrow> Inr (findUnique n d))"

definition findMany :: "(reservation \<Rightarrow> bool) \<Rightarrow> db \<Rightarrow> reservation list" where
  "findMany P d = filter P (rows d)"

text \<open>
  What \<open>create\<close> accepts for an optional text column: a string, \<open>null\<close>, or nothing.
\<close>

fun optional_text :: "jsval \<Rightarrow> prisma_error + string option" where
  "optional_text (JStr s) = Inr (Some s)"
| "optional_text JNull = Inr None"
| "optional_text JUndefined = Inr None"
| "optional_text v = Inl ValidationError"

text \<open>
  \<open>create\<close> with the five properties the handler passes. The other columns take their
  defaults: the next id, status \<open>scheduled\<close>, no call duration, both time stamps now.
\<close>

definition prisma_create ::
  "jsval \<Rightarrow> jsval \<Rightarrow> jsval \<Rightarrow> jsval \<Rightarrow> jsval \<Rightarrow> nat \<Rightarrow> db \<Rightarrow> prisma_error + reservation \<times> db" where
  "prisma_create u rd st et pn now d =
     (case (u, rd, st, et) of
        (JStr u', JStr rd', JStr st', JStr et') \<Rightarrow>
          (case optional_text pn of
             Inl e \<Rightarrow> Inl e
           | Inr pn' \<Rightarrow>
               (let r = \<lparr>id_field = next_id d, username = u', reservationDate = rd',
                         startTime = st', endTime = et', status = ''scheduled'',
                         phoneNumber = pn', callDuration = None,
                         createdAt = now, updatedAt = now\<rparr>
                in Inr (r, d\<lparr>rows := rows d @ [r], next_id := next_id d + 1\<rparr>)))
      | _ \<Rightarrow> Inl ValidationError)"

text \<open>
  \<open>update\<close>: which values a column accepts, and the assignment. The column \<open>id\<close> can be
  written like any other. Writes to the two time stamps (they take date strings) and
  operation objects such as \<open>{set: ...}\<close> are outside the model: they are refused here.
\<close>

definition column_ok :: "string \<Rightarrow> jsval \<Rightarrow> bool" where
  "column_ok k v =
     (if k \<in> set [''username'', ''reservationDate'', ''startTime'', ''endTime'', ''status'']
      then (case v of JStr s \<Rightarrow> True | _ \<Rightarrow> False)
      else if k = ''phoneNumber'' then (case v of JStr s \<Rightarrow> True | JNull \<Rightarrow> True | _ \<Rightarrow> False)
      else if k = ''callDuration'' then (case v of JNum n \<Rightarrow> True | JNull \<Rightarrow> True | _ \<Rightarrow> False)
      else if k = ''id'' then (case v of JNum n \<Rightarrow> int_column n | _ \<Rightarrow> False)
      else False)"

definition set_column :: "reservation \<Rightarrow> string \<times> jsval \<Rightarrow> reservation" where
  "set_column r kv =
     (case kv of
        (k, JStr s) \<Rightarrow>
          (if k = ''username'' then r\<lparr>username := s\<rparr>
           else if k = ''reservationDate'' then r\<lparr>reservationDate := s\<rparr>
           else if k = ''startTime'' then r\<lparr>startTime := s\<rparr>
           else if k = ''endTime'' then r\<lparr>endTime := s\<rparr>
           else if k = ''status'' then r\<lparr>status := s\<rparr>
           else if k = ''phoneNumber'' then r\<lparr>phoneNumber := Some s\<rparr>
           else r)
      | (k, JNum n) \<Rightarrow>
          (if k = ''callDuration'' then r\<lparr>callDuration := Some n\<rparr>
           else if k = ''id'' then r\<lparr>id_field := n\<rparr>
           else r)
      | (k, JNull) \<Rightarrow>
          (if k = ''phoneNumber'' then r\<lparr>phoneNumber := None\<rparr>
           else if k = ''callDuration'' then r\<lparr>callDuration := None\<rparr>
           else r)
      | _ \<Rightarrow> r)"

text \<open>
  \<open>prisma.callReservation.update({where: {id}, data})\<close>. Properties whose value is
  \<open>undefined\<close> are no part of the data. The data is checked before the row is looked for.
  A Number that is not a value of the column names no row of a table, and is refused as
  out of range. With no data the row is returned as it is; else the columns are written,
  \<open>updatedAt\<close> is stamped, and the row stays where it is in the table.
\<close>

definition prisma_update ::
  "number \<Rightarrow> body \<Rightarrow> nat \<Rightarrow> db \<Rightarrow> prisma_error + reservation \<times> db" where
  "prisma_update i dat now d =
     (case i of
        Num n \<Rightarrow>
          (let writes = filter (\<lambda>(k, v). v \<noteq> JUndefined) dat in
           if \<not> list_all (\<lambda>(k, v). column_ok k v) writes then Inl ValidationError
           else case findUnique n d of
             None \<Rightarrow> Inl (if int_column n then RecordNotFound else ValueOutOfRange)
           | Some r \<Rightarrow>
               if writes = [] then Inr (r, d)
               else
                 (let r' = (foldl set_column r writes)\<lparr>updatedAt := now\<rparr> in
                  if id_field r' \<noteq> n \<and> findUnique (id_field r') d \<noteq> None
                  then Inl UniqueConstraintFailed
                  else Inr (r', d\<lparr>rows := map (\<lambda>x. if id_field x = n then r' else x)
                                             (rows d)\<rparr>)))
      | NaN \<Rightarrow> Inl ValidationError
      | Beyond s \<Rightarrow> Inl ValueOutOfRange)"

section \<open>The reservation handlers\<close>

text \<open>
  A handler takes the request, the clock and the store, and returns the response and the
  store it leaves. (Log lines are left out here: they change neither.)
\<close>

definition createReservation :: "body \<Rightarrow> nat \<Rightarrow> db \<Rightarrow> response \<times> db" where
  "createReservation b now d =
     (let username = field b ''username'';
          reservationDate = field b ''reservationDate'';
          startTime = field b ''startTime'';
          endTime = field b ''endTime'';
          phoneNumber = field b ''phoneNumber''
      in if \<not> truthy username \<or> \<not> truthy reservationDate \<or> \<not> truthy startTime \<or> \<not> truthy endTime
         then
           (\<lparr>code = 400, success = False,
             message = Some ''Missing required fields: username, reservationDate, startTime, and endTime are required'',
             data = NoData, error = None\<rparr>, d)
         else case prisma_create username reservationDate startTime endTime phoneNumber now d of
           Inl e \<Rightarrow> (handleError e ''Failed to create reservation'', d)
         | Inr (r, d') \<Rightarrow>
             (\<lparr>code = 201, success = True, message = None, data = One r, error = None\<rparr>, d'))"

text \<open>
  \<open>ident\<close> is the route parameter \<open>id\<close>; the empty string stands for a missing one.
  \<open>isNaN(parsedId)\<close> is the only test of the parsed Number; an exception of the lookup
  is caught and answered by \<open>handleError\<close>.
\<close>

definition getReservationById :: "string \<Rightarrow> db \<Rightarrow> response" where
  "getReservationById ident d =
     (if ident = [] then
        \<lparr>code = 400, success = False, message = Some ''Missing ID parameter'',
         data = NoData, error = None\<rparr>
      else
        (let parsedId = parseInt ident (Some 10) in
         if parsedId = NaN then
           \<lparr>code = 400, success = False, message = Some ''Invalid ID format - must be a number'',
            data = NoData, error = None\<rparr>
         else case prisma_findUnique parsedId d of
           Inl e \<Rightarrow> handleError e ''Failed to fetch reservation''
         | Inr None \<Rightarrow>
             \<lparr>code = 404, success = False, message = Some ''Reservation not found'',
              data = NoData, error = None\<rparr>
         | Inr (Some r) \<Rightarrow>
             \<lparr>code = 200, success = True, message = None, data = One r, error = None\<rparr>))"

definition updateReservation :: "string \<Rightarrow> body \<Rightarrow> nat \<Rightarrow> db \<Rightarrow> response \<times> db" where
  "updateReservation ident b now d =
     (let status = field b ''status'';
          callDuration = field b ''callDuration'';
          otherData = filter (\<lambda>(k, v). k \<noteq> ''status'' \<and> k \<noteq> ''callDuration'') b;
          parsed_id = parseInt ident None
      in case prisma_update parsed_id
                ((''status'', status) # (''callDuration'', callDuration) # otherData) now d of
           Inl e \<Rightarrow> (handleError e ''Failed to update reservation'', d)
         | Inr (r, d') \<Rightarrow>
             (\<lparr>code = 200, success = True, message = None, data = One r, error = None\<rparr>, d'))"

section \<open>updateExpiredReservations\<close>

text \<open>
  The \<open>where\<close> clause of the query. \<open>lt\<close> on a text column is the order of the strings,
  taken here as the lexicographic order of their code units.
\<close>

definition expired :: "string \<Rightarrow> string \<Rightarrow> reservation \<Rightarrow> bool" where
  "expired today currentTime r =
     (status r = ''ongoing'' \<and>
      (reservationDate r < today \<or> (reservationDate r = today \<and> endTime r < currentTime)))"

definition opt_num :: "int option \<Rightarrow> jsval" where
  "opt_num x = (case x of None \<Rightarrow> JNull | Some n \<Rightarrow> JNum n)"

text \<open>
  The updates of \<open>Promise.all\<close>, one per row of the query's result, each addressed by
  the id of that row and with the call duration read from it; every update runs, whether
  or not another one fails.
\<close>

fun update_each ::
  "reservation list \<Rightarrow> nat \<Rightarrow> db \<Rightarrow> (prisma_error + reservation) list \<times> db" where
  "update_each [] now d = ([], d)"
| "update_each (r # rs) now d =
     (case prisma_update (Num (id_field r))
             [(''status'', JStr ''completed''),
              (''callDuration'', js_or (opt_num (callDuration r)) (JNum 0))] now d of
        Inl e \<Rightarrow> (case update_each rs now d of (res, d') \<Rightarrow> (Inl e # res, d'))
      | Inr (r', d1) \<Rightarrow> (case update_each rs now d1 of (res, d') \<Rightarrow> (Inr r' # res, d')))"

fun first_error :: "(prisma_error + reservation) list \<Rightarrow> prisma_error option" where
  "first_error [] = None"
| "first_error (Inl e # xs) = Some e"
| "first_error (Inr r # xs) = first_error xs"

fun fulfilled :: "(prisma_error + reservation) list \<Rightarrow> reservation list" where
  "fulfilled [] = []"
| "fulfilled (Inl e # xs) = fulfilled xs"
| "fulfilled (Inr r # xs) = r # fulfilled xs"

text \<open>Decimal digits of a number, as a template string prints it.\<close>

fun show_nat :: "nat \<Rightarrow> string" where
  "show_nat n =
     (if n < 10 then [char_of (48 + n)]
      else show_nat (n div 10) @ [char_of (48 + n mod 10)])"

declare show_nat.simps [simp del]

text \<open>
  The handler. \<open>today\<close> and \<open>currentTime\<close> are the two strings it derives from the
  clock, \<open>now\<close> is the instant that the updates record.
\<close>

definition updateExpiredReservations :: "string \<Rightarrow> string \<Rightarrow> nat \<Rightarrow> db \<Rightarrow> response \<times> db" where
  "updateExpiredReservations today currentTime now d =
     (let expiredReservations = findMany (expired today currentTime) d
      in if length expiredReservations = 0 then
           (\<lparr>code = 200, success = True, message = Some ''No expired reservations found'',
             data = Many [], error = None\<rparr>, d)
         else case update_each expiredReservations now d of
           (results, d') \<Rightarrow>
             (case first_error results of
                Some e \<Rightarrow> (handleError e ''Failed to update expired reservations'', d')
              | None \<Rightarrow>
                  (let updatedReservations = fulfilled results in
                   (\<lparr>code = 200, success = True,
                     message = Some (''Updated '' @ show_nat (length updatedReservations)
                                      @ '' expired reservations''),
                     data = Many updatedReservations, error = None\<rparr>, d'))))"

section \<open>The language of a regular expression\<close>

text \<open>
  The sets of strings that the expressions denote, for the proof that the matcher decides
  membership. \<open>lang_rep L m n\<close> is between \<open>m\<close> and \<open>n\<close> strings of \<open>L\<close> in a row.
\<close>

definition conc :: "string set \<Rightarrow> string set \<Rightarrow> string set" where
  "conc A B = {a @ b | a b. a \<in> A \<and> b \<in> B}"

fun lang_rep :: "string set \<Rightarrow> nat \<Rightarrow> nat \<Rightarrow> string set" where
  "lang_rep L m 0 = (if m = 0 then {[]} else {})"
| "lang_rep L m (Suc n) = (if m = 0 then {[]} else {}) \<union> conc L (lang_rep L (m - 1) n)"

fun lang :: "rexp \<Rightarrow> string set" where
  "lang Fail = {}"
| "lang Eps = {[]}"
| "lang (Lit c) = {[c]}"
| "lang (Range lo hi) = {[c] | c. in_range lo hi c}"
| "lang (Alt r s) = lang r \<union> lang s"
| "lang (Seq r s) = conc (lang r) (lang s)"
| "lang (Opt r) = {[]} \<union> lang r"
| "lang (Rep r m n) = lang_rep (lang r) m n"

section \<open>The specification's notions\<close>

text \<open>
  The phone pattern in the specification's words: an optional leading \<open>+\<close>, a first
  digit from 1 to 9, then 1 to 14 further digits.
\<close>

definition spec_phone_pattern :: "string \<Rightarrow> bool" where
  "spec_phone_pattern s =
     (let ds = (case s of c # cs \<Rightarrow> if c = CHR ''+'' then cs else s | [] \<Rightarrow> s) in
      case ds of
        [] \<Rightarrow> False
      | d # rest \<Rightarrow>
          in_range CHR ''1'' CHR ''9'' d \<and> 1 \<le> length rest \<and> length rest \<le> 14
          \<and> list_all is_digit rest)"

datatype targetKind = KClient | KSip | KPhone | KUnspecified

text \<open>
  The Destination Classifier in the specification's words (section 4.1), on a destination
  that is absent (\<open>None\<close>) or a string.
\<close>

definition spec_classify :: "string option \<Rightarrow> targetKind \<times> string" where
  "spec_classify to =
     (case to of
        None \<Rightarrow> (KUnspecified, [])
      | Some t \<Rightarrow>
          if t = [] then (KUnspecified, [])
          else if startsWith t ''client:'' then (KClient, drop (length ''client:'') t)
          else if startsWith t ''sip:'' then (KSip, t)
          else if spec_phone_pattern t then (KPhone, t)
          else (KClient, t))"

text \<open>
  The routing decision that a call-control document carries: the kind and address of the
  one noun of its one \<open>Dial\<close>, or \<open>unspecified\<close> for the no-destination message.
\<close>

definition decision_of :: "verb list \<Rightarrow> (targetKind \<times> string) option" where
  "decision_of vs =
     (if vs = [no_destination] then Some (KUnspecified, [])
      else case vs of
        [Dial a [Client c]] \<Rightarrow> Some (KClient, c)
      | [Dial a [Sip u]] \<Rightarrow> Some (KSip, u)
      | [Dial a [Number na n]] \<Rightarrow> Some (KPhone, n)
      | _ \<Rightarrow> None)"

text \<open>The verified caller id: the configured one, when there is one and it is not empty.\<close>

definition verified_number :: "config \<Rightarrow> string option" where
  "verified_number cfg =
     (case twilio_callerId cfg of None \<Rightarrow> None | Some v \<Rightarrow> if v = [] then None else Some v)"

text \<open>
  The transition of the expiry sweep: status \<open>completed\<close>, the call duration kept or 0
  when there is none, the row stamped with the time of the update.
\<close>

definition complete :: "nat \<Rightarrow> reservation \<Rightarrow> reservation" where
  "complete now r =
     r\<lparr>status := ''completed'',
       callDuration := Some (case callDuration r of None \<Rightarrow> 0 | Some n \<Rightarrow> n),
       updatedAt := now\<rparr>"

text \<open>
  A well-formed positive integer in the specification's sense: digits only, not all of
  them zero.
\<close>

definition spec_well_formed_id :: "string \<Rightarrow> bool" where
  "spec_well_formed_id s \<longleftrightarrow> s \<noteq> [] \<and> list_all is_digit s \<and> (\<exists>c\<in>set s. c \<noteq> CHR ''0'')"

text \<open>The number that a string of decimal digits writes.\<close>

definition decimal_value :: "string \<Rightarrow> nat" where
  "decimal_value ds = foldl (\<lambda>a c. 10 * a + (of_char c - 48)) 0 ds"

text \<open>The string without its sign, as \<open>parseInt\<close> computes it.\<close>

definition strip_sign :: "string \<Rightarrow> string" where
  "strip_sign S = (case S of c # cs \<Rightarrow> if c = CHR ''+'' \<or> c = CHR ''-'' then cs else S | [] \<Rightarrow> S)"

section \<open>Concrete inputs\<close>

text \<open>Configurations, requests and stores on which the results below are run.\<close>

definition example_config :: config where
  "example_config = \<lparr>twilio_callerId = None, serverUrl = ''https://example.test''\<rparr>"

definition verified_config :: config where
  "verified_config = \<lparr>twilio_callerId = Some ''+15550001111'', serverUrl = ''https://example.test''\<rparr>"

definition call_request :: "jsval \<Rightarrow> jsval \<Rightarrow> jsval \<Rightarrow> request" where
  "call_request to from sid =
     \<lparr>body_To = to, query_To = JUndefined, body_From = from, query_From = JUndefined,
      body_CallSid = sid\<rparr>"

definition example_row :: reservation where
  "example_row =
     \<lparr>id_field = 1, username = ''alice'', reservationDate = ''2025-01-09'',
      startTime = ''09:00'', endTime = ''10:00'', status = ''ongoing'',
      phoneNumber = None, callDuration = None, createdAt = 1, updatedAt = 1\<rparr>"

definition example_db :: db where
  "example_db =
     \<lparr>rows =
        [example_row,
         example_row\<lparr>id_field := 2, reservationDate := ''2025-01-10'', endTime := ''11:00'',
                      callDuration := Some 30\<rparr>,
         example_row\<lparr>id_field := 3, reservationDate := ''2025-01-10'', endTime := ''09:30''\<rparr>,
         example_row\<lparr>id_field := 4, status := ''scheduled''\<rparr>],
      next_id = 5\<rparr>"

definition example_body :: body where
  "example_body =
     [(''username'', JStr ''bob''), (''reservationDate'', JStr ''2025-02-01''),
      (''startTime'', JStr ''14:00''), (''endTime'', JStr ''15:00''),
      (''status'', JStr ''completed''), (''callDuration'', JNum 99), (''id'', JNum 77),
      (''callSid'', JStr ''CA1'')]"

section \<open>The matcher decides the language\<close>

lemma in_conc: "s \<in> conc A B \<longleftrightarrow> (\<exists>a b. s = a @ b \<and> a \<in> A \<and> b \<in> B)"
  by (auto simp: conc_def)

lemma Nil_in_conc: "[] \<in> conc A B \<longleftrightarrow> [] \<in> A \<and> [] \<in> B"
  by (auto simp: conc_def)

lemma Cons_in_conc:
  "c # s \<in> conc A B \<longleftrightarrow>
     (\<exists>a b. s = a @ b \<and> c # a \<in> A \<and> b \<in> B) \<or> ([] \<in> A \<and> c # s \<in> B)"
  by (auto simp: conc_def Cons_eq_append_conv)

lemma Nil_in_lang_rep: "[] \<in> lang_rep L m n \<longleftrightarrow> m = 0 \<or> ([] \<in> L \<and> m \<le> n)"
  by (induction n arbitrary: m) (auto simp: Nil_in_conc)

lemma nullable_lang: "nullable r \<longleftrightarrow> [] \<in> lang r"
  by (induction r) (auto simp: Nil_in_conc Nil_in_lang_rep)

lemma lang_rep_grow: "[] \<in> L \<Longrightarrow> lang_rep L (m - 1) n \<subseteq> lang_rep L m (Suc n)"
  by (auto simp: conc_def)

text \<open>
  When \<open>L\<close> holds the empty string, a string of the repetition that starts with \<open>c\<close>
  can be cut after a first factor that starts with \<open>c\<close>.
\<close>

lemma lang_rep_absorb:
  "[] \<in> L \<Longrightarrow> c # s \<in> lang_rep L m n \<Longrightarrow>
     \<exists>a b. s = a @ b \<and> c # a \<in> L \<and> b \<in> lang_rep L (m - 1) (n - 1)"
proof (induction n arbitrary: m)
  case 0
  then show ?case by (auto split: if_splits)
next
  case (Suc n)
  from Suc.prems(2) have "c # s \<in> conc L (lang_rep L (m - 1) n)"
    by (auto split: if_splits)
  then consider a b where "s = a @ b" "c # a \<in> L" "b \<in> lang_rep L (m - 1) n"
    | "c # s \<in> lang_rep L (m - 1) n"
    by (auto simp: Cons_in_conc)
  then show ?case
  proof cases
    case 1
    then show ?thesis by auto
  next
    case 2
    from Suc.IH[OF Suc.prems(1) 2] obtain a b where
      ab: "s = a @ b" "c # a \<in> L" "b \<in> lang_rep L (m - 1 - 1) (n - 1)" by blast
    have "lang_rep L (m - 1 - 1) (n - 1) \<subseteq> lang_rep L (m - 1) n"
    proof (cases n)
      case 0
      with 2 show ?thesis by (auto split: if_splits)
    next
      case (Suc k)
      then show ?thesis using lang_rep_grow[OF Suc.prems(1), of "m - 1" k] by simp
    qed
    with ab show ?thesis by auto
  qed
qed

lemma Cons_in_lang_rep:
  "c # s \<in> lang_rep L m n \<longleftrightarrow>
     n \<noteq> 0 \<and> (\<exists>a b. s = a @ b \<and> c # a \<in> L \<and> b \<in> lang_rep L (m - 1) (n - 1))"
proof (cases n)
  case 0
  then show ?thesis by (auto split: if_splits)
next
  case (Suc k)
  show ?thesis
  proof (cases "[] \<in> L")
    case True
    then show ?thesis using Suc lang_rep_absorb[of L c s m n]
      by (auto simp: Cons_in_conc)
  next
    case False
    then show ?thesis using Suc by (auto simp: Cons_in_conc)
  qed
qed

lemma lang_deriv: "s \<in> lang (deriv c r) \<longleftrightarrow> c # s \<in> lang r"
proof (induction r arbitrary: s)
  case (Seq r1 r2)
  have "s \<in> conc (lang (deriv c r1)) (lang r2)
          \<longleftrightarrow> (\<exists>a b. s = a @ b \<and> c # a \<in> lang r1 \<and> b \<in> lang r2)"
    by (simp add: in_conc Seq.IH)
  then show ?case by (simp add: Cons_in_conc nullable_lang Seq.IH)
next
  case (Rep r m n)
  have "s \<in> conc (lang (deriv c r)) (lang_rep (lang r) (m - 1) (n - 1))
          \<longleftrightarrow> (\<exists>a b. s = a @ b \<and> c # a \<in> lang r \<and> b \<in> lang_rep (lang r) (m - 1) (n - 1))"
    by (simp add: in_conc Rep.IH)
  then show ?case by (simp add: Cons_in_lang_rep)
qed auto

lemma matches_lang: "matches r s \<longleftrightarrow> s \<in> lang r"
  by (induction s arbitrary: r) (auto simp: nullable_lang lang_deriv)

subsection \<open>The phone pattern\<close>

lemma lang_rep_class:
  "lang_rep {[c] | c. P c} m n = {s. m \<le> length s \<and> length s \<le> n \<and> list_all P s}"
proof (induction n arbitrary: m)
  case 0
  then show ?case by auto
next
  case (Suc n)
  show ?case
  proof (rule set_eqI)
    fix s
    show "s \<in> lang_rep {[c] | c. P c} m (Suc n)
            \<longleftrightarrow> s \<in> {s. m \<le> length s \<and> length s \<le> Suc n \<and> list_all P s}"
    proof (cases s)
      case Nil
      then show ?thesis by (simp add: Nil_in_lang_rep del: lang_rep.simps)
    next
      case (Cons a list)
      have "(\<exists>x b. list = x @ b \<and> a # x \<in> {[c] | c. P c}
                \<and> b \<in> lang_rep {[c] | c. P c} (m - 1) n)
              \<longleftrightarrow> P a \<and> list \<in> lang_rep {[c] | c. P c} (m - 1) n"
        by auto
      then show ?thesis using Cons
        by (auto simp: Suc.IH Cons_in_lang_rep simp del: lang_rep.simps)
    qed
  qed
qed

lemma in_conc_opt: "s \<in> conc ({[]} \<union> A) B \<longleftrightarrow> s \<in> B \<or> s \<in> conc A B"
  by (auto simp: in_conc)

lemma in_conc_lit:
  "s \<in> conc {[c]} B \<longleftrightarrow> (case s of [] \<Rightarrow> False | d # t \<Rightarrow> d = c \<and> t \<in> B)"
  by (auto simp: in_conc split: list.splits)

lemma in_conc_class:
  "s \<in> conc {[c] | c. P c} B \<longleftrightarrow> (case s of [] \<Rightarrow> False | d # t \<Rightarrow> P d \<and> t \<in> B)"
proof (cases s)
  case Nil
  then show ?thesis by (simp add: in_conc)
next
  case (Cons d t)
  have "d # t \<in> conc {[c] | c. P c} B \<longleftrightarrow> P d \<and> t \<in> B"
    by (simp add: Cons_in_conc)
  with Cons show ?thesis by simp
qed

lemma lang_phone_regex: "s \<in> lang phone_regex \<longleftrightarrow> spec_phone_pattern s"
proof -
  have plus: "\<not> in_range CHR ''1'' CHR ''9'' CHR ''+''"
    by (simp add: in_range_def)
  show ?thesis
    unfolding phone_regex_def spec_phone_pattern_def is_digit_def lang.simps
      lang_rep_class in_conc_opt in_conc_lit in_conc_class
    by (cases s) (auto simp: plus list_all_iff split: list.splits)
qed

lemma isPhoneNumber_pattern: "isPhoneNumber s \<longleftrightarrow> spec_phone_pattern s"
  by (simp add: isPhoneNumber_def matches_lang lang_phone_regex)

section \<open>Call routing\<close>

lemma replace_prefix:
  "startsWith t p \<Longrightarrow> p \<noteq> [] \<Longrightarrow> replace t p [] = drop (length p) t"
  by (cases t) (auto simp: startsWith_def)

lemma phone_not_prefixed:
  assumes "isPhoneNumber t"
  shows "t \<noteq> [] \<and> \<not> startsWith t ''client:'' \<and> \<not> startsWith t ''sip:''"
proof -
  have c: "\<not> in_range CHR ''1'' CHR ''9'' CHR ''c''" and s: "\<not> in_range CHR ''1'' CHR ''9'' CHR ''s''"
    by (simp_all add: in_range_def)
  from assms have "spec_phone_pattern t" by (simp add: isPhoneNumber_pattern)
  then show ?thesis using c s
    by (cases t) (auto simp: spec_phone_pattern_def startsWith_def split: list.splits if_splits)
qed

lemma decision_of_simps:
  "decision_of [no_destination] = Some (KUnspecified, [])"
  "decision_of [Dial a [Client c]] = Some (KClient, c)"
  "decision_of [Dial a [Sip u]] = Some (KSip, u)"
  "decision_of [Dial a [Number na n]] = Some (KPhone, n)"
  by (simp_all add: decision_of_def no_destination_def)

lemma voice_try_absent:
  "\<not> truthy to \<Longrightarrow> voice_try cfg to cid =
     (None, \<lparr>logs = [Log LWarn ''No 'To' parameter provided in voice request'' []],
             twiml = [no_destination]\<rparr>)"
  by (simp add: voice_try_def)

lemma voice_try_twiml:
  assumes "t \<noteq> []"
  shows "fst (voice_try cfg (JStr t) cid) = None \<and>
         twiml (snd (voice_try cfg (JStr t) cid)) =
           (if startsWith t ''client:'' then
              [Dial \<lparr>callerId = cid, answerOnBridge = True, timeout = Some 20\<rparr>
                 [Client (drop (length ''client:'') t)]]
            else if startsWith t ''sip:'' then
              [Dial \<lparr>callerId = cid, answerOnBridge = True, timeout = None\<rparr> [Sip t]]
            else if isPhoneNumber t then
              [Dial \<lparr>callerId = js_or (of_opt (twilio_callerId cfg)) cid,
                     answerOnBridge = True, timeout = Some 20\<rparr>
                 [Number \<lparr>statusCallbackEvent =
                            [''initiated'', ''ringing'', ''answered'', ''completed''],
                          statusCallback = serverUrl cfg @ ''/status'',
                          statusCallbackMethod = ''POST''\<rparr> t]]
            else
              [Dial \<lparr>callerId = cid, answerOnBridge = True, timeout = Some 20\<rparr> [Client t]])"
  using assms by (simp add: voice_try_def Let_def replace_prefix)

lemma voiceResponse_string_from:
  assumes "js_or (js_or (body_From req) (query_From req)) (JStr ''client:anonymous'') = JStr f"
    and "fst (voice_try cfg (js_or (body_To req) (query_To req)) (resolveCallerId cfg f)) = None"
  shows "\<exists>r. voiceResponse cfg req = Inr r \<and>
     twiml r = twiml (snd (voice_try cfg (js_or (body_To req) (query_To req)) (resolveCallerId cfg f)))
     \<and> set (logs r) = insert (Log LInfo ''Voice request: To=%, From=%, CallerId=%''
          [js_or (body_To req) (query_To req), JStr f, resolveCallerId cfg f]) (set (logs (snd (voice_try cfg (js_or (body_To req) (query_To req)) (resolveCallerId cfg f)))))"
  using assms by (auto simp: voiceResponse_def Let_def split: prod.splits option.splits)

lemma resolveCallerId_verified:
  "resolveCallerId cfg f =
     (if startsWith f ''client:'' then (case verified_number cfg of Some v \<Rightarrow> JStr v | None \<Rightarrow> JStr f)
      else JStr f)"
  by (simp add: resolveCallerId_def verified_number_def js_or_def of_opt_def split: option.splits)

lemma presented_verified:
  "js_or (of_opt (twilio_callerId cfg)) cid =
     (case verified_number cfg of Some v \<Rightarrow> JStr v | None \<Rightarrow> cid)"
  by (simp add: verified_number_def js_or_def of_opt_def split: option.splits)

lemma voice_try_warns:
  assumes "isPhoneNumber t" "verified_number cfg = None"
  shows "Log LWarn ''Attempting to call a phone number without a valid callerId configured'' []
           \<in> set (logs (snd (voice_try cfg (JStr t) cid)))"
proof -
  from assms(2) have "\<not> truthy (of_opt (twilio_callerId cfg))"
    by (auto simp: verified_number_def of_opt_def split: option.splits if_splits)
  then show ?thesis
    using assms(1) phone_not_prefixed[OF assms(1)]
    by (simp add: voice_try_def Let_def)
qed

lemma phone_example: "isPhoneNumber ''+14155551234''"
  by (simp add: isPhoneNumber_def phone_regex_def in_range_def)

text \<open>
  C1. Whatever string the destination is, and also when it is absent, \<open>voiceResponse\<close>
  answers with a document that carries exactly the routing decision of the Destination
  Classifier of the specification: \<open>unspecified\<close> for an absent or empty destination,
  a client addressed by the rest of the string after the prefix \<open>client:\<close>, a SIP target
  addressed by the whole string after the prefix \<open>sip:\<close>, a phone target addressed by the
  string when it has the shape of a phone number, and a client addressed by the string
  otherwise. The handler returns, and the apology of the error path is not in the document.
  (The caller is a string or absent, as the interface says.)
\<close>

theorem voiceResponse_classifies:
  assumes "js_or (js_or (body_From req) (query_From req)) (JStr ''client:anonymous'') = JStr f"
    and "js_or (body_To req) (query_To req) = of_opt to"
  shows "\<exists>r. voiceResponse cfg req = Inr r
           \<and> decision_of (twiml r) = Some (spec_classify to)
           \<and> apology \<notin> set (twiml r)"
proof (cases "to = None \<or> to = Some []")
  case True
  then have nt: "\<not> truthy (of_opt to)" by (auto simp: of_opt_def)
  have cl: "spec_classify to = (KUnspecified, [])"
    using True by (auto simp: spec_classify_def)
  from voiceResponse_string_from[OF assms(1)] obtain r where
    "voiceResponse cfg req = Inr r" "twiml r = [no_destination]"
    using nt assms(2) by (auto simp: voice_try_absent)
  moreover have "no_destination \<noteq> apology"
    by (simp add: no_destination_def apology_def)
  ultimately show ?thesis using cl
    by (simp add: decision_of_simps)
next
  case False
  then obtain t where t: "to = Some t" "t \<noteq> []" by (cases to) auto
  then have eq: "js_or (body_To req) (query_To req) = JStr t"
    using assms(2) by (simp add: of_opt_def)
  note tw = voice_try_twiml[OF t(2), of cfg "resolveCallerId cfg f"]
  have "fst (voice_try cfg (js_or (body_To req) (query_To req)) (resolveCallerId cfg f)) = None"
    using tw eq by simp
  from voiceResponse_string_from[OF assms(1) this] obtain r where
    "voiceResponse cfg req = Inr r"
    "twiml r = twiml (snd (voice_try cfg (js_or (body_To req) (query_To req))
                             (resolveCallerId cfg f)))"
    by blast
  then have r: "voiceResponse cfg req = Inr r"
    "twiml r = twiml (snd (voice_try cfg (JStr t) (resolveCallerId cfg f)))"
    using eq by simp_all
  show ?thesis
    using r t tw
    by (auto simp: spec_classify_def decision_of_simps isPhoneNumber_pattern apology_def)
qed


theorem voiceResponse_classifies_witness:
  "js_or (js_or (body_From (call_request (JStr ''+14155551234'') (JStr ''client:alice'') JUndefined))
       (query_From (call_request (JStr ''+14155551234'') (JStr ''client:alice'') JUndefined)))
     (JStr ''client:anonymous'') = JStr ''client:alice''
   \<and> js_or (body_To (call_request (JStr ''+14155551234'') (JStr ''client:alice'') JUndefined))
       (query_To (call_request (JStr ''+14155551234'') (JStr ''client:alice'') JUndefined))
     = of_opt (Some ''+14155551234'')
   \<and> (\<exists>r. voiceResponse example_config
             (call_request (JStr ''+14155551234'') (JStr ''client:alice'') JUndefined) = Inr r
          \<and> decision_of (twiml r) = Some (KPhone, ''+14155551234'')
          \<and> apology \<notin> set (twiml r))"
proof -
  let ?req = "call_request (JStr ''+14155551234'') (JStr ''client:alice'') JUndefined"
  have h1: "js_or (js_or (body_From ?req) (query_From ?req)) (JStr ''client:anonymous'')
              = JStr ''client:alice''"
    by (simp add: call_request_def js_or_def)
  have h2: "js_or (body_To ?req) (query_To ?req) = of_opt (Some ''+14155551234'')"
    by (simp add: call_request_def js_or_def of_opt_def)
  have c: "spec_classify (Some ''+14155551234'') = (KPhone, ''+14155551234'')"
    by (simp add: spec_classify_def spec_phone_pattern_def startsWith_def in_range_def
        is_digit_def)
  show ?thesis
    using voiceResponse_classifies[OF h1 h2, of example_config] h1 h2 c by simp
qed

text \<open>
  C4. When \<open>from\<close> starts with \<open>client:\<close>, the resolved caller id is the verified
  number if one is configured and not empty, and \<open>from\<close> otherwise. When the destination
  is a phone number, the caller id of the dial instruction is the verified number if there
  is one, and else the resolved caller id; in that second case a warning is logged, and
  the document still dials the number.
\<close>

theorem caller_identity_resolution:
  "(startsWith f ''client:'' \<longrightarrow>
      resolveCallerId cfg f = (case verified_number cfg of Some v \<Rightarrow> JStr v | None \<Rightarrow> JStr f))
   \<and> (js_or (js_or (body_From req) (query_From req)) (JStr ''client:anonymous'') = JStr f
        \<and> js_or (body_To req) (query_To req) = JStr t \<and> isPhoneNumber t \<longrightarrow>
      (\<exists>r na. voiceResponse cfg req = Inr r
         \<and> twiml r =
             [Dial \<lparr>callerId = (case verified_number cfg of
                                  Some v \<Rightarrow> JStr v | None \<Rightarrow> resolveCallerId cfg f),
                    answerOnBridge = True, timeout = Some 20\<rparr> [Number na t]]
         \<and> (verified_number cfg = None \<longrightarrow>
              Log LWarn ''Attempting to call a phone number without a valid callerId configured'' []
                \<in> set (logs r))))"
proof (intro conjI impI)
  assume "startsWith f ''client:''"
  then show "resolveCallerId cfg f = (case verified_number cfg of Some v \<Rightarrow> JStr v | None \<Rightarrow> JStr f)"
    by (simp add: resolveCallerId_verified)
next
  assume a: "js_or (js_or (body_From req) (query_From req)) (JStr ''client:anonymous'') = JStr f
        \<and> js_or (body_To req) (query_To req) = JStr t \<and> isPhoneNumber t"
  then have ph: "isPhoneNumber t" and eq: "js_or (body_To req) (query_To req) = JStr t"
    and fr: "js_or (js_or (body_From req) (query_From req)) (JStr ''client:anonymous'') = JStr f"
    by simp_all
  note np = phone_not_prefixed[OF ph]
  from np have ne: "t \<noteq> []" by simp
  note tw = voice_try_twiml[OF ne, of cfg "resolveCallerId cfg f"]
  have "fst (voice_try cfg (js_or (body_To req) (query_To req)) (resolveCallerId cfg f)) = None"
    using tw eq by simp
  from voiceResponse_string_from[OF fr this] obtain r where r:
    "voiceResponse cfg req = Inr r"
    "twiml r = twiml (snd (voice_try cfg (js_or (body_To req) (query_To req))
                             (resolveCallerId cfg f)))"
    "set (logs r) = insert (Log LInfo ''Voice request: To=%, From=%, CallerId=%''
          [js_or (body_To req) (query_To req), JStr f, resolveCallerId cfg f])
        (set (logs (snd (voice_try cfg (js_or (body_To req) (query_To req))
                           (resolveCallerId cfg f)))))"
    by blast
  have 1: "twiml r =
     [Dial \<lparr>callerId = (case verified_number cfg of
                          Some v \<Rightarrow> JStr v | None \<Rightarrow> resolveCallerId cfg f),
            answerOnBridge = True, timeout = Some 20\<rparr>
        [Number \<lparr>statusCallbackEvent = [''initiated'', ''ringing'', ''answered'', ''completed''],
                 statusCallback = serverUrl cfg @ ''/status'',
                 statusCallbackMethod = ''POST''\<rparr> t]]"
    using r(2) eq tw np ph by (simp add: presented_verified)
  have 2: "verified_number cfg = None \<longrightarrow>
      Log LWarn ''Attempting to call a phone number without a valid callerId configured'' []
        \<in> set (logs r)"
    using r(3) eq voice_try_warns[OF ph, of cfg "resolveCallerId cfg f"] by simp
  from r(1) 1 2 show "\<exists>r na. voiceResponse cfg req = Inr r
         \<and> twiml r =
             [Dial \<lparr>callerId = (case verified_number cfg of
                                  Some v \<Rightarrow> JStr v | None \<Rightarrow> resolveCallerId cfg f),
                    answerOnBridge = True, timeout = Some 20\<rparr> [Number na t]]
         \<and> (verified_number cfg = None \<longrightarrow>
              Log LWarn ''Attempting to call a phone number without a valid callerId configured'' []
                \<in> set (logs r))"
    by auto
qed

theorem caller_identity_resolution_witness:
  "startsWith ''client:alice'' ''client:''
   \<and> resolveCallerId example_config ''client:alice'' = JStr ''client:alice''
   \<and> resolveCallerId verified_config ''client:alice'' = JStr ''+15550001111''
   \<and> isPhoneNumber ''+14155551234''
   \<and> (\<exists>r na. voiceResponse example_config
                (call_request (JStr ''+14155551234'') (JStr ''client:alice'') JUndefined) = Inr r
         \<and> twiml r = [Dial \<lparr>callerId = JStr ''client:alice'', answerOnBridge = True,
                            timeout = Some 20\<rparr> [Number na ''+14155551234'']]
         \<and> Log LWarn ''Attempting to call a phone number without a valid callerId configured'' []
                \<in> set (logs r))
   \<and> (\<exists>r na. voiceResponse verified_config
                (call_request (JStr ''+14155551234'') (JStr ''client:alice'') JUndefined) = Inr r
         \<and> twiml r = [Dial \<lparr>callerId = JStr ''+15550001111'', answerOnBridge = True,
                            timeout = Some 20\<rparr> [Number na ''+14155551234'']])"
proof -
  let ?req = "call_request (JStr ''+14155551234'') (JStr ''client:alice'') JUndefined"
  have sw: "startsWith ''client:alice'' ''client:''"
    by (simp add: startsWith_def)
  have h: "js_or (js_or (body_From ?req) (query_From ?req)) (JStr ''client:anonymous'')
              = JStr ''client:alice''
           \<and> js_or (body_To ?req) (query_To ?req) = JStr ''+14155551234''
           \<and> isPhoneNumber ''+14155551234''"
    by (simp add: call_request_def js_or_def phone_example)
  have v0: "verified_number example_config = None"
    by (simp add: verified_number_def example_config_def)
  have v1: "verified_number verified_config = Some ''+15550001111''"
    by (simp add: verified_number_def verified_config_def)
  show ?thesis
    using caller_identity_resolution[of "''client:alice''" example_config ?req "''+14155551234''"]
      caller_identity_resolution[of "''client:alice''" verified_config ?req "''+14155551234''"]
      sw h v0 v1
    by auto
qed

text \<open>
  C7. Every connection instruction should carry a timeout of 20 seconds and
  \<open>answerOnBridge\<close>, and a status callback exactly when the target is a phone. The
  timeout is missing on one branch: for a destination with the prefix \<open>sip:\<close> the
  handler builds the \<open>Dial\<close> with the caller id and \<open>answerOnBridge\<close> only, while the
  client and phone branches beside it (see \<open>voice_try_twiml\<close>) set 20. The answer to
  such a destination:
\<close>

theorem sip_dial_without_timeout:
  "voiceResponse example_config
     (call_request (JStr ''sip:bob@example.test'') (JStr ''client:alice'') JUndefined)
   = Inr \<lparr>logs =
            [Log LInfo ''Voice request: To=%, From=%, CallerId=%''
               [JStr ''sip:bob@example.test'', JStr ''client:alice'', JStr ''client:alice''],
             Log LInfo ''Dialing to SIP: %'' [JStr ''sip:bob@example.test''],
             Log LDebug ''Generated TwiML response for voice call'' []],
          twiml =
            [Dial \<lparr>callerId = JStr ''client:alice'', answerOnBridge = True, timeout = None\<rparr>
               [Sip ''sip:bob@example.test'']]\<rparr>"
  by (simp add: voiceResponse_def voice_try_def call_request_def example_config_def js_or_def
      resolveCallerId_def of_opt_def startsWith_def Let_def)

text \<open>
  C8. In inbound mode a destination with the prefix \<open>client:\<close> should be dialled with
  the caller as caller id, and any other destination should get the spoken message and no
  connection instruction. \<open>incomingCall\<close> adds its \<open>Dial\<close> before it looks at the
  destination, so the document for a destination that is not a client holds a \<open>Dial\<close>
  without a target in front of the message:
\<close>

theorem incoming_fallback_keeps_dial:
  "twiml (incomingCall (call_request (JStr ''+14155551234'') (JStr ''+15550002222'') (JStr ''CA1'')))
   = [Dial \<lparr>callerId = JStr ''+15550002222'', answerOnBridge = True, timeout = None\<rparr> [],
      no_one_available]"
  by (simp add: incomingCall_def incoming_try_def call_request_def js_or_def startsWith_def Let_def)

section \<open>The expiry sweep\<close>

lemma findUnique_member:
  assumes "distinct (map id_field (rows d))" "r \<in> set (rows d)"
  shows "findUnique (id_field r) d = Some r"
  using assms unfolding findUnique_def
proof (induction "rows d" arbitrary: d)
  case Nil
  then show ?case by simp
next
  case (Cons a as)
  from Cons.hyps(2)[symmetric] Cons.prems have
    "distinct (map id_field (a # as))" "r \<in> set (a # as)" by simp_all
  moreover have "find (\<lambda>x. id_field x = id_field r) as = Some r" if "r \<in> set as" "distinct (map id_field as)"
    using Cons.hyps(1)[of "d\<lparr>rows := as\<rparr>"] that by simp
  ultimately show ?case using Cons.hyps(2)[symmetric] by (auto simp: image_iff)
qed

lemma duration_or_zero:
  "js_or (opt_num x) (JNum 0) = JNum (case x of None \<Rightarrow> 0 | Some n \<Rightarrow> n)"
  by (simp add: js_or_def opt_num_def split: option.splits)

lemma prisma_update_complete:
  assumes "findUnique (id_field r) d = Some r"
  shows "prisma_update (Num (id_field r))
           [(''status'', JStr ''completed''),
            (''callDuration'', js_or (opt_num (callDuration r)) (JNum 0))] now d
         = Inr (complete now r,
                d\<lparr>rows := map (\<lambda>x. if id_field x = id_field r then complete now r else x) (rows d)\<rparr>)"
  using assms
  by (simp add: prisma_update_def duration_or_zero column_ok_def set_column_def complete_def
      Let_def)

lemma id_field_complete: "id_field (complete now r) = id_field r"
  by (simp add: complete_def)

lemma update_each_complete:
  assumes "distinct (map id_field (rows d))" "distinct (map id_field xs)" "set xs \<subseteq> set (rows d)"
  shows "update_each xs now d =
           (map (\<lambda>x. Inr (complete now x)) xs,
            d\<lparr>rows := map (\<lambda>r. if id_field r \<in> id_field ` set xs then complete now r else r)
                         (rows d)\<rparr>)"
  using assms
proof (induction xs arbitrary: d)
  case Nil
  then show ?case by simp
next
  case (Cons x xs)
  let ?d1 = "d\<lparr>rows := map (\<lambda>y. if id_field y = id_field x then complete now x else y) (rows d)\<rparr>"
  have x: "x \<in> set (rows d)" using Cons.prems(3) by simp
  have fu: "findUnique (id_field x) d = Some x"
    by (rule findUnique_member[OF Cons.prems(1) x])
  have same: "y = x" if "y \<in> set (rows d)" "id_field y = id_field x" for y
    using that x Cons.prems(1) by (meson distinct_map inj_onD)
  have rows1: "rows ?d1 = map (\<lambda>y. if id_field y = id_field x then complete now y else y) (rows d)"
    using same by (auto intro!: map_cong)
  have ids1: "map id_field (rows ?d1) = map id_field (rows d)"
    by (simp add: rows1 id_field_complete o_def cong: if_cong)
  have d1: "distinct (map id_field (rows ?d1))"
    using Cons.prems(1) by (simp only: ids1)
  have dx: "distinct (map id_field xs)" and nx: "id_field x \<notin> id_field ` set xs"
    using Cons.prems(2) by simp_all
  have sub: "set xs \<subseteq> set (rows ?d1)"
  proof
    fix y assume y: "y \<in> set xs"
    then have "y \<in> set (rows d)" using Cons.prems(3) by auto
    moreover have "id_field y \<in> id_field ` set xs" using y by simp
    then have "id_field y \<noteq> id_field x" using nx by metis
    ultimately show "y \<in> set (rows ?d1)" by (auto simp: rows1 image_iff)
  qed
  note IH = Cons.IH[OF d1 dx sub]
  have comp: "map (\<lambda>r. if id_field r \<in> id_field ` set xs then complete now r else r) (rows ?d1)
      = map (\<lambda>r. if id_field r \<in> id_field ` set (x # xs) then complete now r else r) (rows d)"
    using nx by (simp add: rows1 id_field_complete) 
  show ?case
    using IH comp by (simp add: prisma_update_complete[OF fu])
qed


lemma first_error_fulfilled:
  "first_error (map (\<lambda>x. Inr (f x)) xs) = None" "fulfilled (map (\<lambda>x. Inr (f x)) xs) = map f xs"
  by (induction xs) simp_all

lemma expired_ids:
  assumes "distinct (map id_field rs)" "r \<in> set rs"
  shows "id_field r \<in> id_field ` set (filter P rs) \<longleftrightarrow> P r"
proof
  assume "id_field r \<in> id_field ` set (filter P rs)"
  then obtain y where y: "y \<in> set rs" "P y" "id_field y = id_field r" by auto
  then have "y = r" using assms by (meson distinct_map inj_onD)
  with y show "P r" by simp
next
  assume "P r"
  then show "id_field r \<in> id_field ` set (filter P rs)" using assms(2) by auto
qed

lemma sweep_result:
  assumes "distinct (map id_field (rows d))"
  shows "updateExpiredReservations today currentTime now d =
     (\<lparr>code = 200, success = True,
       message = Some (if filter (expired today currentTime) (rows d) = []
                       then ''No expired reservations found''
                       else ''Updated '' @ show_nat (length (filter (expired today currentTime) (rows d)))
                              @ '' expired reservations''),
       data = Many (map (complete now) (filter (expired today currentTime) (rows d))),
       error = None\<rparr>,
      d\<lparr>rows := map (\<lambda>r. if expired today currentTime r then complete now r else r) (rows d)\<rparr>)"
proof (cases "filter (expired today currentTime) (rows d) = []")
  case True
  then have "\<forall>r\<in>set (rows d). \<not> expired today currentTime r"
    by (simp add: filter_empty_conv)
  then have "map (\<lambda>r. if expired today currentTime r then complete now r else r) (rows d) = rows d"
    by (simp add: map_idI)
  then show ?thesis using True
    by (simp add: updateExpiredReservations_def findMany_def)
next
  case False
  let ?xs = "filter (expired today currentTime) (rows d)"
  have "distinct (map id_field ?xs)"
    using assms by (simp add: distinct_map_filter)
  from update_each_complete[OF assms this, of now]
  have ue: "update_each ?xs now d =
           (map (\<lambda>x. Inr (complete now x)) ?xs,
            d\<lparr>rows := map (\<lambda>r. if id_field r \<in> id_field ` set ?xs then complete now r else r)
                         (rows d)\<rparr>)"
    by simp
  have "map (\<lambda>r. if id_field r \<in> id_field ` set ?xs then complete now r else r) (rows d)
      = map (\<lambda>r. if expired today currentTime r then complete now r else r) (rows d)"
  proof (rule map_cong[OF refl])
    fix r assume r: "r \<in> set (rows d)"
    show "(if id_field r \<in> id_field ` set ?xs then complete now r else r)
            = (if expired today currentTime r then complete now r else r)"
      by (simp only: expired_ids[OF assms r])
  qed
  with ue show ?thesis using False
    by (simp add: updateExpiredReservations_def findMany_def first_error_fulfilled Let_def)
qed

lemma not_expired_complete: "\<not> expired today currentTime (complete now r)"
  by (simp add: expired_def complete_def)

lemma sweep_leaves_none:
  "filter (expired today currentTime)
     (map (\<lambda>r. if expired today currentTime r then complete now r else r) rs) = []"
  by (induction rs) (simp_all add: not_expired_complete)

text \<open>
  C2. In a store whose ids are distinct, and for every reading of the clock, the sweep
  turns into \<open>completed\<close> exactly the reservations that are \<open>ongoing\<close> and whose date
  is before today, or is today with an end time before now; each of them keeps its call
  duration, or gets 0 when it had none; every other reservation is left as it was; the
  answer is a success that carries the updated rows; and when no reservation matches, the
  answer is a success with no rows and the store is untouched.
\<close>

theorem sweep_transitions:
  assumes "distinct (map id_field (rows d))"
  shows "rows (snd (updateExpiredReservations today currentTime now d))
           = map (\<lambda>r. if expired today currentTime r then complete now r else r) (rows d)
       \<and> next_id (snd (updateExpiredReservations today currentTime now d)) = next_id d
       \<and> code (fst (updateExpiredReservations today currentTime now d)) = 200
       \<and> success (fst (updateExpiredReservations today currentTime now d))
       \<and> error (fst (updateExpiredReservations today currentTime now d)) = None
       \<and> data (fst (updateExpiredReservations today currentTime now d))
           = Many (map (complete now) (filter (expired today currentTime) (rows d)))
       \<and> ((\<forall>r\<in>set (rows d). \<not> expired today currentTime r) \<longrightarrow>
            updateExpiredReservations today currentTime now d
              = (\<lparr>code = 200, success = True, message = Some ''No expired reservations found'',
                  data = Many [], error = None\<rparr>, d))"
proof -
  have "(\<forall>r\<in>set (rows d). \<not> expired today currentTime r) \<longrightarrow>
            updateExpiredReservations today currentTime now d
              = (\<lparr>code = 200, success = True, message = Some ''No expired reservations found'',
                  data = Many [], error = None\<rparr>, d)"
    by (simp add: updateExpiredReservations_def findMany_def filter_empty_conv)
  then show ?thesis
    by (simp add: sweep_result[OF assms])
qed

theorem sweep_transitions_witness:
  "distinct (map id_field (rows example_db))
   \<and> rows (snd (updateExpiredReservations ''2025-01-10'' ''10:15'' 99 example_db))
       = [example_row\<lparr>status := ''completed'', callDuration := Some 0, updatedAt := 99\<rparr>,
          example_row\<lparr>id_field := 2, reservationDate := ''2025-01-10'', endTime := ''11:00'',
                      callDuration := Some 30\<rparr>,
          example_row\<lparr>id_field := 3, reservationDate := ''2025-01-10'', endTime := ''09:30'',
                      status := ''completed'', callDuration := Some 0, updatedAt := 99\<rparr>,
          example_row\<lparr>id_field := 4, status := ''scheduled''\<rparr>]
   \<and> code (fst (updateExpiredReservations ''2025-01-10'' ''10:15'' 99 example_db)) = 200
   \<and> filter (expired ''2024-12-31'' ''10:15'') (rows example_db) = []
   \<and> updateExpiredReservations ''2024-12-31'' ''10:15'' 99 example_db
       = (\<lparr>code = 200, success = True, message = Some ''No expired reservations found'',
           data = Many [], error = None\<rparr>, example_db)"
proof -
  have h: "distinct (map id_field (rows example_db))"
    by (simp add: example_db_def example_row_def)
  have n: "\<forall>r\<in>set (rows example_db). \<not> expired ''2024-12-31'' ''10:15'' r"
    by (simp add: example_db_def example_row_def expired_def)
  have m: "map (\<lambda>r. if expired ''2025-01-10'' ''10:15'' r then complete 99 r else r) (rows example_db)
       = [example_row\<lparr>status := ''completed'', callDuration := Some 0, updatedAt := 99\<rparr>,
          example_row\<lparr>id_field := 2, reservationDate := ''2025-01-10'', endTime := ''11:00'',
                      callDuration := Some 30\<rparr>,
          example_row\<lparr>id_field := 3, reservationDate := ''2025-01-10'', endTime := ''09:30'',
                      status := ''completed'', callDuration := Some 0, updatedAt := 99\<rparr>,
          example_row\<lparr>id_field := 4, status := ''scheduled''\<rparr>]"
    by (simp add: example_db_def example_row_def expired_def complete_def)
  from sweep_transitions[OF h, of "''2025-01-10''" "''10:15''" 99] m
  have 1: "rows (snd (updateExpiredReservations ''2025-01-10'' ''10:15'' 99 example_db))
       = [example_row\<lparr>status := ''completed'', callDuration := Some 0, updatedAt := 99\<rparr>,
          example_row\<lparr>id_field := 2, reservationDate := ''2025-01-10'', endTime := ''11:00'',
                      callDuration := Some 30\<rparr>,
          example_row\<lparr>id_field := 3, reservationDate := ''2025-01-10'', endTime := ''09:30'',
                      status := ''completed'', callDuration := Some 0, updatedAt := 99\<rparr>,
          example_row\<lparr>id_field := 4, status := ''scheduled''\<rparr>]"
    and 2: "code (fst (updateExpiredReservations ''2025-01-10'' ''10:15'' 99 example_db)) = 200"
    by simp_all
  from sweep_transitions[OF h, of "''2024-12-31''" "''10:15''" 99] n
  have 3: "updateExpiredReservations ''2024-12-31'' ''10:15'' 99 example_db
       = (\<lparr>code = 200, success = True, message = Some ''No expired reservations found'',
           data = Many [], error = None\<rparr>, example_db)"
    by blast
  from n have e: "filter (expired ''2024-12-31'' ''10:15'') (rows example_db) = []"
    by (simp add: filter_empty_conv)
  from h e 1 2 3 show ?thesis by blast
qed

text \<open>
  C3. The sweep is idempotent: run again on the store that a first run has left, with the
  same reading of the clock, it finds nothing to update, answers with a success that
  carries no rows, and leaves the store as the first run left it.
\<close>

theorem sweep_idempotent:
  assumes "distinct (map id_field (rows d))"
  shows "updateExpiredReservations today currentTime now'
           (snd (updateExpiredReservations today currentTime now d))
         = (\<lparr>code = 200, success = True, message = Some ''No expired reservations found'',
             data = Many [], error = None\<rparr>,
            snd (updateExpiredReservations today currentTime now d))"
proof -
  have first: "snd (updateExpiredReservations today currentTime now d)
      = d\<lparr>rows := map (\<lambda>r. if expired today currentTime r then complete now r else r) (rows d)\<rparr>"
    by (simp add: sweep_result[OF assms])
  show ?thesis
    unfolding first
    by (simp add: updateExpiredReservations_def findMany_def sweep_leaves_none)
qed

theorem sweep_idempotent_witness:
  "distinct (map id_field (rows example_db))
   \<and> rows (snd (updateExpiredReservations ''2025-01-10'' ''10:15'' 99 example_db)) \<noteq> rows example_db
   \<and> updateExpiredReservations ''2025-01-10'' ''10:15'' 120
       (snd (updateExpiredReservations ''2025-01-10'' ''10:15'' 99 example_db))
     = (\<lparr>code = 200, success = True, message = Some ''No expired reservations found'',
         data = Many [], error = None\<rparr>,
        snd (updateExpiredReservations ''2025-01-10'' ''10:15'' 99 example_db))"
proof -
  have h: "distinct (map id_field (rows example_db))"
    by (simp add: example_db_def example_row_def)
  have c: "rows (snd (updateExpiredReservations ''2025-01-10'' ''10:15'' 99 example_db))
             \<noteq> rows example_db"
    using sweep_result[OF h, of "''2025-01-10''" "''10:15''" 99]
    by (simp add: example_db_def example_row_def expired_def complete_def)
  from sweep_idempotent[OF h, of "''2025-01-10''" "''10:15''" 120 99] h c
  show ?thesis by blast
qed

section \<open>Lookup and update by id\<close>

lemma digit_code: "is_digit c \<longleftrightarrow> 48 \<le> (of_char c :: nat) \<and> (of_char c :: nat) \<le> 57"
  by (simp add: is_digit_def in_range_def less_eq_char_def)

lemma digit_not_ws: "is_digit c \<Longrightarrow> \<not> is_ws c"
  by (auto simp: digit_code is_ws_def)

lemma digit_not_sign: "is_digit c \<Longrightarrow> c \<noteq> CHR ''+'' \<and> c \<noteq> CHR ''-''"
  by (auto simp: digit_code)

lemma sign_not_ws: "\<not> is_ws CHR ''+''" "\<not> is_ws CHR ''-''"
  by (simp_all add: is_ws_def)

lemma radix_digit_10: "radix_digit 10 c = (if is_digit c then Some (of_char c - 48) else None)"
  by (auto simp: radix_digit_def digit_val_def is_digit_def in_range_def less_eq_char_def)

lemma parseInt_10:
  "parseInt s (Some 10) =
     (let S = dropWhile is_ws s; Z = scan_digits 10 (strip_sign S)
      in if Z = [] then NaN
         else to_number (case S of c # cs \<Rightarrow> if c = CHR ''-'' then - 1 else 1 | [] \<Rightarrow> 1)
                (number_of 10 Z))"
  by (simp add: parseInt_def strip_sign_def Let_def)

lemma findUnique_None: "findUnique n d = None \<longleftrightarrow> (\<forall>r\<in>set (rows d). id_field r \<noteq> n)"
  by (auto simp: findUnique_def find_None_iff)

lemma findUnique_Some: "findUnique n d = Some r \<Longrightarrow> r \<in> set (rows d) \<and> id_field r = n"
  by (auto simp: findUnique_def find_Some_iff)

lemma parseInt_2abc: "parseInt ''2abc'' (Some 10) = Num 2"
  by (simp add: parseInt_def is_ws_def radix_digit_def digit_val_def in_range_def number_of_def
      startsWith_def to_number_def Let_def)

lemma parseInt_999999: "parseInt ''999999'' None = Num 999999"
  by (simp add: parseInt_def is_ws_def radix_digit_def digit_val_def in_range_def number_of_def
      startsWith_def to_number_def Let_def)

lemma scan_digits_all:
  "list_all is_digit ds \<Longrightarrow> scan_digits 10 ds = map (\<lambda>c. of_char c - 48) ds"
  by (induction ds) (simp_all add: radix_digit_10)

lemma scan_digits_run:
  "list_all is_digit ds \<Longrightarrow> (case rest of [] \<Rightarrow> True | c # cs \<Rightarrow> \<not> is_digit c) \<Longrightarrow>
     scan_digits 10 (ds @ rest) = scan_digits 10 ds"
  by (induction ds) (auto simp: radix_digit_10 split: list.splits)

lemma number_of_decimal:
  "list_all is_digit ds \<Longrightarrow> number_of 10 (scan_digits 10 ds) = decimal_value ds"
  by (simp add: scan_digits_all number_of_def decimal_value_def foldl_map mult.commute)

text \<open>Digits, and then something that is no digit, are read as the number the digits write.\<close>

lemma parseInt_digit_run:
  assumes "ds \<noteq> []" "list_all is_digit ds" "case rest of [] \<Rightarrow> True | c # cs \<Rightarrow> \<not> is_digit c"
  shows "parseInt (ds @ rest) (Some 10) = to_number 1 (decimal_value ds)"
proof -
  from assms(1) obtain c cs where ds: "ds = c # cs" by (cases ds) auto
  with assms(2) have c: "is_digit c" by simp
  have S: "dropWhile is_ws (ds @ rest) = ds @ rest"
    using ds digit_not_ws[OF c] by simp
  have st: "strip_sign (ds @ rest) = ds @ rest"
    using ds digit_not_sign[OF c] by (simp add: strip_sign_def)
  have ne: "scan_digits 10 ds \<noteq> []"
    using ds c by (simp add: radix_digit_10)
  have sg: "(case ds @ rest of [] \<Rightarrow> 1 | c # cs \<Rightarrow> if c = CHR ''-'' then - 1 else (1::int)) = 1"
    using ds digit_not_sign[OF c] by simp
  show ?thesis
    using ne
    by (simp add: parseInt_10 S st sg scan_digits_run[OF assms(2,3)]
        number_of_decimal[OF assms(2)] del: scan_digits.simps)
qed

lemma parseInt_minus:
  assumes "ds \<noteq> []" "list_all is_digit ds"
  shows "parseInt (CHR ''-'' # ds) (Some 10) = to_number (- 1) (decimal_value ds)"
proof -
  from assms(1) obtain c cs where ds: "ds = c # cs" by (cases ds) auto
  with assms(2) have c: "is_digit c" by simp
  have ne: "scan_digits 10 ds \<noteq> []"
    using ds c by (simp add: radix_digit_10)
  show ?thesis
    using ne
    by (simp add: parseInt_10 sign_not_ws strip_sign_def number_of_decimal[OF assms(2)]
        del: scan_digits.simps)
qed

text \<open>
  The key of a parsed Number: the integer itself when it is a value of the column. Beyond
  2^53 it is none, whatever the rounding.
\<close>

lemma column_key_to_number:
  assumes "s = 1 \<or> s = - 1"
  shows "column_key (to_number s m) =
           (if int_column (s * int m) then Inr (s * int m) else Inl ValueOutOfRange)"
proof (cases "m < 2 ^ 53")
  case True
  then show ?thesis by (simp add: to_number_def)
next
  case False
  then have "(2::int) ^ 53 \<le> int m"
    by (metis not_less of_nat_le_iff of_nat_numeral of_nat_power)
  then have "\<not> int_column (s * int m)"
    using assms by (auto simp: int_column_def)
  then show ?thesis using False by (simp add: to_number_def)
qed

lemma to_number_not_NaN: "to_number s m \<noteq> NaN"
  by (simp add: to_number_def)

text \<open>The answer to an id that is read as the integer \<open>s * m\<close>.\<close>

lemma getReservationById_number:
  assumes "ident \<noteq> []" "parseInt ident (Some 10) = to_number s m" "s = 1 \<or> s = - 1"
  shows "getReservationById ident d =
           (if int_column (s * int m) then
              (case findUnique (s * int m) d of
                 None \<Rightarrow>
                   \<lparr>code = 404, success = False, message = Some ''Reservation not found'',
                    data = NoData, error = None\<rparr>
               | Some r \<Rightarrow>
                   \<lparr>code = 200, success = True, message = None, data = One r, error = None\<rparr>)
            else handleError ValueOutOfRange ''Failed to fetch reservation'')"
  using assms(1)
  by (simp add: getReservationById_def assms(2) to_number_not_NaN prisma_findUnique_def
      column_key_to_number[OF assms(3)] split: option.splits)

text \<open>
  C5. An update whose id names no reservation should fail as not found, with status 404,
  and leave the store unchanged. \<open>updateReservation\<close> has no such case: the refusal of
  the storage client is caught with every other failure and answered by \<open>handleError\<close>
  with status 500. The store is unchanged.
\<close>

theorem updateReservation_missing_row:
  "updateReservation ''999999'' [(''status'', JStr ''completed'')] 99 example_db =
     (\<lparr>code = 500, success = False, message = Some ''Failed to update reservation'',
       data = NoData, error = Some RecordNotFound\<rparr>, example_db)"
  by (simp add: updateReservation_def parseInt_999999 prisma_update_def field_def column_ok_def
      findUnique_def int_column_def example_db_def example_row_def handleError_def)

text \<open>
  C6. \<open>getReservationById\<close> should fail with status 400 exactly when the id is not a
  well-formed positive integer, and with status 404 exactly when it is one and no
  reservation has it. The handler means to refuse what is not a number (its message says
  so), but its only test is \<open>isNaN(parseInt(id, 10))\<close>, which lets through every string
  that starts with a number: the id \<open>2abc\<close> is not a well-formed positive integer, and the
  answer to it is reservation 2 with status 200.
\<close>

theorem getReservationById_takes_prefix:
  "\<not> spec_well_formed_id ''2abc''
   \<and> getReservationById ''2abc'' example_db =
       \<lparr>code = 200, success = True, message = None,
        data = One (example_row\<lparr>id_field := 2, reservationDate := ''2025-01-10'',
                                endTime := ''11:00'', callDuration := Some 30\<rparr>),
        error = None\<rparr>"
  by (simp add: spec_well_formed_id_def is_digit_def in_range_def getReservationById_def
      parseInt_2abc prisma_findUnique_def int_column_def findUnique_def example_db_def
      example_row_def)

text \<open>
  C10, as stated, fails in its second half: not every minus sign followed by digits is
  answered with not found. The id \<open>-2147483649\<close> passes the format check, is no value of
  the 32-bit column \<open>id\<close>, and the refusal of the storage client is answered with
  status 500.
\<close>

theorem getReservationById_minus_beyond_column:
  "getReservationById ''-2147483649'' example_db =
     \<lparr>code = 500, success = False, message = Some ''Failed to fetch reservation'',
      data = NoData, error = Some ValueOutOfRange\<rparr>"
proof -
  have "parseInt (CHR ''-'' # ''2147483649'') (Some 10) = to_number (- 1) (decimal_value ''2147483649'')"
    by (rule parseInt_minus) (simp_all add: is_digit_def in_range_def)
  moreover have "decimal_value ''2147483649'' = 2147483649"
    by (simp add: decimal_value_def)
  ultimately have "parseInt ''-2147483649'' (Some 10) = to_number (- 1) 2147483649"
    by simp
  from getReservationById_number[of "''-2147483649''" "- 1" 2147483649 example_db] this
  show ?thesis
    by (simp add: int_column_def handleError_def)
qed

text \<open>
  C10, amended. An id that starts with decimal digits and goes on with anything that is
  not a digit passes the format check, and the lookup is made with the number that the
  digits write: the answer is never the bad-id failure; it is the reservation with that
  number as id if there is one, not found (404) if the number is a value of the 32-bit
  column \<open>id\<close> and no reservation has it, and the failure with status 500 if the number
  is no value of the column. A minus sign followed by digits passes the check too, and the
  lookup is made with the negated number, with the same three answers.
\<close>

theorem getReservationById_uses_prefix:
  "(ds \<noteq> [] \<and> list_all is_digit ds \<and> (case rest of [] \<Rightarrow> True | c # cs \<Rightarrow> \<not> is_digit c) \<longrightarrow>
      code (getReservationById (ds @ rest) d) \<noteq> 400
      \<and> getReservationById (ds @ rest) d =
          (if int_column (int (decimal_value ds)) then
             (case findUnique (int (decimal_value ds)) d of
                None \<Rightarrow>
                  \<lparr>code = 404, success = False, message = Some ''Reservation not found'',
                   data = NoData, error = None\<rparr>
              | Some r \<Rightarrow>
                  \<lparr>code = 200, success = True, message = None, data = One r, error = None\<rparr>)
           else handleError ValueOutOfRange ''Failed to fetch reservation''))
   \<and> (ds \<noteq> [] \<and> list_all is_digit ds \<longrightarrow>
      code (getReservationById (CHR ''-'' # ds) d) \<noteq> 400
      \<and> getReservationById (CHR ''-'' # ds) d =
          (if int_column (- int (decimal_value ds)) then
             (case findUnique (- int (decimal_value ds)) d of
                None \<Rightarrow>
                  \<lparr>code = 404, success = False, message = Some ''Reservation not found'',
                   data = NoData, error = None\<rparr>
              | Some r \<Rightarrow>
                  \<lparr>code = 200, success = True, message = None, data = One r, error = None\<rparr>)
           else handleError ValueOutOfRange ''Failed to fetch reservation''))"
proof (intro conjI impI)
  assume a: "ds \<noteq> [] \<and> list_all is_digit ds \<and> (case rest of [] \<Rightarrow> True | c # cs \<Rightarrow> \<not> is_digit c)"
  then have p: "parseInt (ds @ rest) (Some 10) = to_number 1 (decimal_value ds)"
    by (simp add: parseInt_digit_run)
  from a have ne: "ds @ rest \<noteq> []" by simp
  from getReservationById_number[OF ne p, of d]
  show g: "getReservationById (ds @ rest) d =
          (if int_column (int (decimal_value ds)) then
             (case findUnique (int (decimal_value ds)) d of
                None \<Rightarrow>
                  \<lparr>code = 404, success = False, message = Some ''Reservation not found'',
                   data = NoData, error = None\<rparr>
              | Some r \<Rightarrow>
                  \<lparr>code = 200, success = True, message = None, data = One r, error = None\<rparr>)
           else handleError ValueOutOfRange ''Failed to fetch reservation'')"
    by simp
  show "code (getReservationById (ds @ rest) d) \<noteq> 400"
    unfolding g by (simp add: handleError_def split: option.splits)
next
  assume a: "ds \<noteq> [] \<and> list_all is_digit ds"
  then have p: "parseInt (CHR ''-'' # ds) (Some 10) = to_number (- 1) (decimal_value ds)"
    by (simp add: parseInt_minus)
  from getReservationById_number[OF _ p, of d]
  show g: "getReservationById (CHR ''-'' # ds) d =
          (if int_column (- int (decimal_value ds)) then
             (case findUnique (- int (decimal_value ds)) d of
                None \<Rightarrow>
                  \<lparr>code = 404, success = False, message = Some ''Reservation not found'',
                   data = NoData, error = None\<rparr>
              | Some r \<Rightarrow>
                  \<lparr>code = 200, success = True, message = None, data = One r, error = None\<rparr>)
           else handleError ValueOutOfRange ''Failed to fetch reservation'')"
    by simp
  show "code (getReservationById (CHR ''-'' # ds) d) \<noteq> 400"
    unfolding g by (simp add: handleError_def split: option.splits)
qed

theorem getReservationById_uses_prefix_witness:
  "list_all is_digit ''2'' \<and> list_all is_digit ''12'' \<and> list_all is_digit ''5''
   \<and> \<not> is_digit CHR ''a''
   \<and> getReservationById ''2abc'' example_db =
       \<lparr>code = 200, success = True, message = None,
        data = One (example_row\<lparr>id_field := 2, reservationDate := ''2025-01-10'',
                                endTime := ''11:00'', callDuration := Some 30\<rparr>),
        error = None\<rparr>
   \<and> getReservationById ''12abc'' example_db =
       \<lparr>code = 404, success = False, message = Some ''Reservation not found'',
        data = NoData, error = None\<rparr>
   \<and> getReservationById ''-5'' example_db =
       \<lparr>code = 404, success = False, message = Some ''Reservation not found'',
        data = NoData, error = None\<rparr>"
proof -
  have h2: "''2'' \<noteq> [] \<and> list_all is_digit ''2''
            \<and> (case ''abc'' of [] \<Rightarrow> True | c # cs \<Rightarrow> \<not> is_digit c)"
    and h12: "''12'' \<noteq> [] \<and> list_all is_digit ''12''
            \<and> (case ''abc'' of [] \<Rightarrow> True | c # cs \<Rightarrow> \<not> is_digit c)"
    and h5: "''5'' \<noteq> [] \<and> list_all is_digit ''5''"
    and na: "\<not> is_digit CHR ''a''"
    by (simp_all add: is_digit_def in_range_def)
  have v: "decimal_value ''2'' = 2" "decimal_value ''12'' = 12" "decimal_value ''5'' = 5"
    by (simp_all add: decimal_value_def)
  have l2: "findUnique 2 example_db =
      Some (example_row\<lparr>id_field := 2, reservationDate := ''2025-01-10'',
                        endTime := ''11:00'', callDuration := Some 30\<rparr>)"
    and l12: "findUnique 12 example_db = None"
    and l5: "findUnique (- 5) example_db = None"
    by (simp_all add: findUnique_def example_db_def example_row_def)
  have c: "int_column 2" "int_column 12" "int_column (- 5)"
    by (simp_all add: int_column_def)
  from getReservationById_uses_prefix[of "''2''" "''abc''" example_db] h2
  have a2: "getReservationById (''2'' @ ''abc'') example_db =
          (if int_column (int (decimal_value ''2'')) then
             (case findUnique (int (decimal_value ''2'')) example_db of
                None \<Rightarrow>
                  \<lparr>code = 404, success = False, message = Some ''Reservation not found'',
                   data = NoData, error = None\<rparr>
              | Some r \<Rightarrow>
                  \<lparr>code = 200, success = True, message = None, data = One r, error = None\<rparr>)
           else handleError ValueOutOfRange ''Failed to fetch reservation'')"
    by blast
  from getReservationById_uses_prefix[of "''12''" "''abc''" example_db] h12
  have a12: "getReservationById (''12'' @ ''abc'') example_db =
          (if int_column (int (decimal_value ''12'')) then
             (case findUnique (int (decimal_value ''12'')) example_db of
                None \<Rightarrow>
                  \<lparr>code = 404, success = False, message = Some ''Reservation not found'',
                   data = NoData, error = None\<rparr>
              | Some r \<Rightarrow>
                  \<lparr>code = 200, success = True, message = None, data = One r, error = None\<rparr>)
           else handleError ValueOutOfRange ''Failed to fetch reservation'')"
    by blast
  from getReservationById_uses_prefix[of "''5''" "[]" example_db] h5
  have a5: "getReservationById (CHR ''-'' # ''5'') example_db =
          (if int_column (- int (decimal_value ''5'')) then
             (case findUnique (- int (decimal_value ''5'')) example_db of
                None \<Rightarrow>
                  \<lparr>code = 404, success = False, message = Some ''Reservation not found'',
                   data = NoData, error = None\<rparr>
              | Some r \<Rightarrow>
                  \<lparr>code = 200, success = True, message = None, data = One r, error = None\<rparr>)
           else handleError ValueOutOfRange ''Failed to fetch reservation'')"
    by blast
  have A: "getReservationById ''2abc'' example_db =
       \<lparr>code = 200, success = True, message = None,
        data = One (example_row\<lparr>id_field := 2, reservationDate := ''2025-01-10'',
                                endTime := ''11:00'', callDuration := Some 30\<rparr>),
        error = None\<rparr>"
    using a2 by (simp add: v c l2)
  have B: "getReservationById ''12abc'' example_db =
       \<lparr>code = 404, success = False, message = Some ''Reservation not found'',
        data = NoData, error = None\<rparr>"
    using a12 by (simp add: v c l12)
  have C: "getReservationById ''-5'' example_db =
       \<lparr>code = 404, success = False, message = Some ''Reservation not found'',
        data = NoData, error = None\<rparr>"
    using a5 by (simp add: v c l5)
  from h2 h12 h5 na A B C show ?thesis by blast
qed

section \<open>Creation\<close>

lemma createReservation_fields:
  "createReservation b now d =
     (if \<not> truthy (field b ''username'') \<or> \<not> truthy (field b ''reservationDate'')
         \<or> \<not> truthy (field b ''startTime'') \<or> \<not> truthy (field b ''endTime'')
      then (\<lparr>code = 400, success = False,
              message = Some ''Missing required fields: username, reservationDate, startTime, and endTime are required'',
              data = NoData, error = None\<rparr>, d)
      else case prisma_create (field b ''username'') (field b ''reservationDate'')
                  (field b ''startTime'') (field b ''endTime'') (field b ''phoneNumber'') now d of
             Inl e \<Rightarrow> (handleError e ''Failed to create reservation'', d)
           | Inr (r, d') \<Rightarrow>
               (\<lparr>code = 201, success = True, message = None, data = One r, error = None\<rparr>, d'))"
  by (simp add: createReservation_def Let_def)

lemma prisma_create_row:
  assumes "prisma_create u rd st et pn now d = Inr (r, d')"
  shows "u = JStr (username r) \<and> rd = JStr (reservationDate r) \<and> st = JStr (startTime r)
         \<and> et = JStr (endTime r) \<and> optional_text pn = Inr (phoneNumber r)
         \<and> status r = ''scheduled'' \<and> callDuration r = None \<and> id_field r = next_id d
         \<and> createdAt r = now \<and> updatedAt r = now
         \<and> d' = d\<lparr>rows := rows d @ [r], next_id := next_id d + 1\<rparr>"
  using assms
  by (auto simp: prisma_create_def Let_def split: jsval.splits sum.splits)

lemma example_body_fields:
  "field example_body ''username'' = JStr ''bob''"
  "field example_body ''reservationDate'' = JStr ''2025-02-01''"
  "field example_body ''startTime'' = JStr ''14:00''"
  "field example_body ''endTime'' = JStr ''15:00''"
  "field example_body ''phoneNumber'' = JUndefined"
  by (simp_all add: field_def example_body_def)

text \<open>
  C9. \<open>createReservation\<close> reads five properties of the body and nothing else: two
  bodies that agree on \<open>username\<close>, \<open>reservationDate\<close>, \<open>startTime\<close>,
  \<open>endTime\<close> and \<open>phoneNumber\<close> get the same answer and leave the same store,
  whatever else they hold. Every reservation that it returns has status \<open>scheduled\<close>,
  no call duration, the next id of the sequence, and the five properties of the body.
\<close>

theorem createReservation_five_fields:
  "(\<forall>b'. (\<forall>k\<in>set [''username'', ''reservationDate'', ''startTime'', ''endTime'', ''phoneNumber''].
            field b' k = field b k) \<longrightarrow>
         createReservation b' now d = createReservation b now d)
   \<and> (\<forall>r. data (fst (createReservation b now d)) = One r \<longrightarrow>
         status r = ''scheduled'' \<and> callDuration r = None \<and> id_field r = next_id d
         \<and> field b ''username'' = JStr (username r)
         \<and> field b ''reservationDate'' = JStr (reservationDate r)
         \<and> field b ''startTime'' = JStr (startTime r)
         \<and> field b ''endTime'' = JStr (endTime r)
         \<and> optional_text (field b ''phoneNumber'') = Inr (phoneNumber r)
         \<and> createdAt r = now \<and> updatedAt r = now
         \<and> code (fst (createReservation b now d)) = 201
         \<and> snd (createReservation b now d) = d\<lparr>rows := rows d @ [r], next_id := next_id d + 1\<rparr>)"
proof (intro conjI allI impI)
  fix b'
  assume "\<forall>k\<in>set [''username'', ''reservationDate'', ''startTime'', ''endTime'', ''phoneNumber''].
            field b' k = field b k"
  then show "createReservation b' now d = createReservation b now d"
    by (simp add: createReservation_fields)
next
  fix r
  assume a: "data (fst (createReservation b now d)) = One r"
  then obtain d' where
    pc: "prisma_create (field b ''username'') (field b ''reservationDate'')
           (field b ''startTime'') (field b ''endTime'') (field b ''phoneNumber'') now d = Inr (r, d')"
    and cr: "createReservation b now d =
      (\<lparr>code = 201, success = True, message = None, data = One r, error = None\<rparr>, d')"
    by (auto simp: createReservation_fields handleError_def split: if_splits sum.splits)
  note row = prisma_create_row[OF pc]
  from row cr show "status r = ''scheduled''" "callDuration r = None" "id_field r = next_id d"
    "field b ''username'' = JStr (username r)"
    "field b ''reservationDate'' = JStr (reservationDate r)"
    "field b ''startTime'' = JStr (startTime r)"
    "field b ''endTime'' = JStr (endTime r)"
    "optional_text (field b ''phoneNumber'') = Inr (phoneNumber r)"
    "createdAt r = now" "updatedAt r = now"
    "code (fst (createReservation b now d)) = 201"
    "snd (createReservation b now d) = d\<lparr>rows := rows d @ [r], next_id := next_id d + 1\<rparr>"
    by simp_all
qed

theorem createReservation_five_fields_witness:
  "list_all (\<lambda>k. field (take 4 example_body) k = field example_body k)
     [''username'', ''reservationDate'', ''startTime'', ''endTime'', ''phoneNumber'']
   \<and> createReservation (take 4 example_body) 100 example_db
       = createReservation example_body 100 example_db
   \<and> data (fst (createReservation example_body 100 example_db))
       = One \<lparr>id_field = 5, username = ''bob'', reservationDate = ''2025-02-01'',
              startTime = ''14:00'', endTime = ''15:00'', status = ''scheduled'',
              phoneNumber = None, callDuration = None, createdAt = 100, updatedAt = 100\<rparr>
   \<and> code (fst (createReservation example_body 100 example_db)) = 201"
proof -
  let ?r = "\<lparr>id_field = 5, username = ''bob'', reservationDate = ''2025-02-01'',
              startTime = ''14:00'', endTime = ''15:00'', status = ''scheduled'',
              phoneNumber = None, callDuration = None, createdAt = 100, updatedAt = 100\<rparr>"
  have h: "\<forall>k\<in>set [''username'', ''reservationDate'', ''startTime'', ''endTime'', ''phoneNumber''].
       field (take 4 example_body) k = field example_body k"
    by (simp add: field_def example_body_def)
  have dat: "data (fst (createReservation example_body 100 example_db)) = One ?r"
    by (simp add: createReservation_fields example_body_fields prisma_create_def example_db_def
        Let_def)
  from createReservation_five_fields[of example_body 100 example_db] h dat
  have "createReservation (take 4 example_body) 100 example_db
       = createReservation example_body 100 example_db"
    and "code (fst (createReservation example_body 100 example_db)) = 201"
    by blast+
  moreover from h have
    "list_all (\<lambda>k. field (take 4 example_body) k = field example_body k)
       [''username'', ''reservationDate'', ''startTime'', ''endTime'', ''phoneNumber'']"
    by (simp only: list_all_iff)
  ultimately show ?thesis using dat by blast
qed


end
